theory Spec2Isabelle
  imports Main
begin

section \<open>Data model of agent/config/config.go\<close>

text \<open>
  Go pointers used as optional values (\<^verbatim>\<open>*string\<close>, \<^verbatim>\<open>*bool\<close>, \<^verbatim>\<open>*int\<close>,
  \<^verbatim>\<open>*time.Duration\<close>) are \<open>option\<close> values: \<open>None\<close> is the nil pointer. Go's \<^verbatim>\<open>int\<close> and
  \<^verbatim>\<open>time.Duration\<close> (nanoseconds) are modelled as \<open>int\<close>; the code only stores and prints
  them, it performs no arithmetic on them. A slice is a list and the nil slice is \<open>[]\<close>;
  a \<^verbatim>\<open>map[string]string\<close> is a partial function and the nil map is \<open>Map.empty\<close>.
\<close>

datatype error =
    ErrParseDuration string
  | ErrNoBindAddr
  | ErrParseBool string
  | ErrAtoi string
  | ErrMissingColon string
  | ErrHelp
  | ErrBadFlagSyntax string
  | ErrNotDefined string
  | ErrNeedsArgument string
  | ErrInvalidBoolValue string string error
  | ErrInvalidBoolFlag string error
  | ErrInvalidValue string string error

record Ports =
  DNS :: "int option"
  HTTP :: "int option"
  HTTPS :: "int option"
  SerfLAN :: "int option"
  SerfWAN :: "int option"
  Server :: "int option"
  DeprecatedRPC :: "int option"

record RetryJoinAzure =
  Azure_TagName :: "string option"
  Azure_TagValue :: "string option"
  Azure_SubscriptionID :: "string option"
  Azure_TenantID :: "string option"
  Azure_ClientID :: "string option"
  Azure_SecretAccessKey :: "string option"

record RetryJoinEC2 =
  EC2_Region :: "string option"
  EC2_TagKey :: "string option"
  EC2_TagValue :: "string option"
  EC2_AccessKeyID :: "string option"
  EC2_SecretAccessKey :: "string option"

record RetryJoinGCE =
  GCE_ProjectName :: "string option"
  GCE_ZonePattern :: "string option"
  GCE_TagValue :: "string option"
  GCE_CredentialsFile :: "string option"

record ConfigFile =
  AdvertiseAddrLAN :: "string option"
  AdvertiseAddrWAN :: "string option"
  BindAddr :: "string option"
  Bootstrap :: "bool option"
  BootstrapExpect :: "int option"
  CheckUpdateInterval :: "string option"
  ClientAddr :: "string option"
  DNSDomain :: "string option"
  DNSRecursors :: "string list"
  DataDir :: "string option"
  Datacenter :: "string option"
  DevMode :: "bool option"
  DisableHostNodeID :: "bool option"
  DisableKeyringFile :: "bool option"
  EnableScriptChecks :: "bool option"
  EnableSyslog :: "bool option"
  EnableUI :: "bool option"
  EncryptKey :: "string option"
  JoinAddrsLAN :: "string list"
  JoinAddrsWAN :: "string list"
  LogLevel :: "string option"
  NodeID :: "string option"
  NodeMeta :: "string \<rightharpoonup> string"
  NodeName :: "string option"
  NonVotingServer :: "bool option"
  PidFile :: "string option"
  Ports :: Ports
  RPCProtocol :: "int option"
  RaftProtocol :: "int option"
  RejoinAfterLeave :: "bool option"
  RetryJoinIntervalLAN :: "int option"
  RetryJoinIntervalWAN :: "int option"
  RetryJoinLAN :: "string list"
  RetryJoinMaxAttemptsLAN :: "int option"
  RetryJoinMaxAttemptsWAN :: "int option"
  RetryJoinWAN :: "string list"
  SerfBindAddrLAN :: "string option"
  SerfBindAddrWAN :: "string option"
  ServerMode :: "bool option"
  UIDir :: "string option"
  DeprecatedRetryJoinAzure :: RetryJoinAzure
  DeprecatedRetryJoinEC2 :: RetryJoinEC2
  DeprecatedRetryJoinGCE :: RetryJoinGCE


text \<open>The zero values \<^verbatim>\<open>Ports{}\<close>, \<^verbatim>\<open>RetryJoinAzure{}\<close>, ..., \<^verbatim>\<open>ConfigFile{}\<close>.\<close>

definition Ports_zero :: Ports where
  "Ports_zero = \<lparr>DNS = None, HTTP = None, HTTPS = None, SerfLAN = None, SerfWAN = None,
     Server = None, DeprecatedRPC = None\<rparr>"

definition RetryJoinAzure_zero :: RetryJoinAzure where
  "RetryJoinAzure_zero = \<lparr>Azure_TagName = None, Azure_TagValue = None,
     Azure_SubscriptionID = None, Azure_TenantID = None, Azure_ClientID = None,
     Azure_SecretAccessKey = None\<rparr>"

definition RetryJoinEC2_zero :: RetryJoinEC2 where
  "RetryJoinEC2_zero = \<lparr>EC2_Region = None, EC2_TagKey = None, EC2_TagValue = None,
     EC2_AccessKeyID = None, EC2_SecretAccessKey = None\<rparr>"

definition RetryJoinGCE_zero :: RetryJoinGCE where
  "RetryJoinGCE_zero = \<lparr>GCE_ProjectName = None, GCE_ZonePattern = None, GCE_TagValue = None,
     GCE_CredentialsFile = None\<rparr>"

definition ConfigFile_zero :: ConfigFile where
  "ConfigFile_zero = \<lparr>
     AdvertiseAddrLAN = None, AdvertiseAddrWAN = None, BindAddr = None, Bootstrap = None,
     BootstrapExpect = None, CheckUpdateInterval = None, ClientAddr = None, DNSDomain = None,
     DNSRecursors = [], DataDir = None, Datacenter = None, DevMode = None,
     DisableHostNodeID = None, DisableKeyringFile = None, EnableScriptChecks = None,
     EnableSyslog = None, EnableUI = None, EncryptKey = None, JoinAddrsLAN = [],
     JoinAddrsWAN = [], LogLevel = None, NodeID = None, NodeMeta = Map.empty, NodeName = None,
     NonVotingServer = None, PidFile = None, Ports = Ports_zero, RPCProtocol = None,
     RaftProtocol = None, RejoinAfterLeave = None, RetryJoinIntervalLAN = None,
     RetryJoinIntervalWAN = None, RetryJoinLAN = [], RetryJoinMaxAttemptsLAN = None,
     RetryJoinMaxAttemptsWAN = None, RetryJoinWAN = [], SerfBindAddrLAN = None,
     SerfBindAddrWAN = None, ServerMode = None, UIDir = None,
     DeprecatedRetryJoinAzure = RetryJoinAzure_zero,
     DeprecatedRetryJoinEC2 = RetryJoinEC2_zero,
     DeprecatedRetryJoinGCE = RetryJoinGCE_zero\<rparr>"

text \<open>
  The runtime configuration \<^verbatim>\<open>Config\<close>. Its fields \<^verbatim>\<open>Bootstrap\<close>, \<^verbatim>\<open>CheckUpdateInterval\<close>,
  \<^verbatim>\<open>Datacenter\<close>, \<^verbatim>\<open>JoinAddrsLAN\<close> and \<^verbatim>\<open>NodeMeta\<close> share their names with fields of
  \<^verbatim>\<open>ConfigFile\<close> and carry the prefix \<open>Config_\<close> here.
\<close>

record Config =
  Config_Bootstrap :: bool
  Config_CheckUpdateInterval :: int
  Config_Datacenter :: string
  BindAddrs :: "string list"
  Config_JoinAddrsLAN :: "string list"
  DNSPort :: int
  DNSAddrsTCP :: "string list"
  DNSAddrsUDP :: "string list"
  Config_NodeMeta :: "string \<rightharpoonup> string"

definition Config_zero :: Config where
  "Config_zero = \<lparr>Config_Bootstrap = False, Config_CheckUpdateInterval = 0,
     Config_Datacenter = [], BindAddrs = [], Config_JoinAddrsLAN = [], DNSPort = 0,
     DNSAddrsTCP = [], DNSAddrsUDP = [], Config_NodeMeta = Map.empty\<rparr>"

section \<open>Library functions called by NewConfig\<close>

text \<open>
  \<^verbatim>\<open>strconv.Itoa\<close> and \<^verbatim>\<open>net.JoinHostPort\<close> belong to the Go standard library.
  \<^verbatim>\<open>Itoa\<close> prints a decimal numeral with a leading minus sign for negative numbers;
  \<^verbatim>\<open>JoinHostPort\<close> joins host and port with a colon and puts a host that contains a colon
  into brackets. The examples below evaluate it at the empty host only.
\<close>

fun natDigits :: "nat \<Rightarrow> string" where
  "natDigits n =
     (if n < 10 then [''0123456789'' ! n]
      else natDigits (n div 10) @ [''0123456789'' ! (n mod 10)])"

declare natDigits.simps [simp del]

definition Itoa :: "int \<Rightarrow> string" where
  "Itoa i = (if i < 0 then CHR ''-'' # natDigits (nat (- i)) else natDigits (nat i))"

definition JoinHostPort :: "string \<Rightarrow> string \<Rightarrow> string" where
  "JoinHostPort host port =
     (if CHR '':'' \<in> set host then ''['' @ host @ '']:'' @ port else host @ '':'' @ port)"

section \<open>NewConfig\<close>

text \<open>
  \<^verbatim>\<open>NewConfig\<close> has the named results \<^verbatim>\<open>c\<close> and \<^verbatim>\<open>err\<close>, and its helper closures read
  and write \<^verbatim>\<open>err\<close>. In the model every closure takes the current \<^verbatim>\<open>err\<close> as an argument,
  and \<^verbatim>\<open>durationVal\<close>, the only one that assigns it, returns the new one.
  \<^verbatim>\<open>time.ParseDuration\<close> is a function of the Go standard library; the model takes it as the
  parameter \<open>pd\<close>, with \<open>Inl\<close> for its error result (the library returns the duration 0 together
  with every error).
\<close>

definition boolVal :: "error option \<Rightarrow> bool option \<Rightarrow> bool" where
  "boolVal err b = (if err \<noteq> None \<or> b = None then False else the b)"

definition durationVal ::
  "(string \<Rightarrow> error + int) \<Rightarrow> error option \<Rightarrow> string option \<Rightarrow> int \<times> error option" where
  "durationVal pd err s =
     (if err \<noteq> None \<or> s = None then (0, err)
      else (case pd (the s) of Inl e \<Rightarrow> (0, Some e) | Inr d \<Rightarrow> (d, None)))"

definition intVal :: "error option \<Rightarrow> int option \<Rightarrow> int" where
  "intVal err n = (if err \<noteq> None \<or> n = None then 0 else the n)"

definition stringVal :: "error option \<Rightarrow> string option \<Rightarrow> string" where
  "stringVal err s = (if err \<noteq> None \<or> s = None then [] else the s)"

definition addrVal :: "error option \<Rightarrow> string option \<Rightarrow> string" where
  "addrVal err s = (let addr = stringVal err s in if addr = [] then ''0.0.0.0'' else addr)"

definition joinHostPort :: "string \<Rightarrow> int \<Rightarrow> string" where
  "joinHostPort host port =
     (let host = (if host = ''0.0.0.0'' then [] else host) in JoinHostPort host (Itoa port))"

text \<open>The body of the loop over \<^verbatim>\<open>c.BindAddrs\<close>: one TCP and one UDP address per bind address.\<close>

definition appendDNSAddrs :: "Config \<Rightarrow> string \<Rightarrow> Config" where
  "appendDNSAddrs c addr =
     c\<lparr>DNSAddrsTCP := DNSAddrsTCP c @ [joinHostPort addr (DNSPort c)],
       DNSAddrsUDP := DNSAddrsUDP c @ [joinHostPort addr (DNSPort c)]\<rparr>"

definition NewConfig :: "(string \<Rightarrow> error + int) \<Rightarrow> ConfigFile \<Rightarrow> Config \<times> error option" where
  "NewConfig pd f =
     (let err = None;
          c = Config_zero;
          c = c\<lparr>Config_Bootstrap := boolVal err (Bootstrap f)\<rparr>;
          (d, err) = durationVal pd err (CheckUpdateInterval f);
          c = c\<lparr>Config_CheckUpdateInterval := d\<rparr>;
          c = c\<lparr>Config_Datacenter := stringVal err (Datacenter f)\<rparr>;
          c = c\<lparr>Config_JoinAddrsLAN := JoinAddrsLAN f\<rparr>;
          c = c\<lparr>Config_NodeMeta := NodeMeta f\<rparr>
      in if BindAddr f = None \<and> Ports f \<noteq> Ports_zero then (Config_zero, Some ErrNoBindAddr)
         else
           let c = (if BindAddr f \<noteq> None then c\<lparr>BindAddrs := [addrVal err (BindAddr f)]\<rparr>
                    else c);
               c = (if DNS (Ports f) \<noteq> None
                    then foldl appendDNSAddrs (c\<lparr>DNSPort := intVal err (DNS (Ports f))\<rparr>)
                           (BindAddrs c)
                    else c)
           in (c, err))"

text \<open>
  For evaluating \<^verbatim>\<open>NewConfig\<close> on concrete fragments: a stand-in for
  \<^verbatim>\<open>time.ParseDuration\<close> at the two strings the examples of this theory use. "5m" is five
  minutes, in nanoseconds, and "x" is no duration (the library rejects a string that starts
  with neither a sign, a digit nor a point). No example reads it at another string.
\<close>

definition parseDuration_ex :: "string \<Rightarrow> error + int" where
  "parseDuration_ex s = (if s = ''5m'' then Inr 300000000000 else Inl (ErrParseDuration s))"

section \<open>Merge\<close>

text \<open>
  Modelled from the spec: the function \<^verbatim>\<open>Merge\<close> (the merge engine) is not among the
  sources; only its test \<^verbatim>\<open>TestMerge\<close> is. The spec (4.1) folds the fragments left to
  right into a new fragment, with one rule per kind of field, applied to every field and
  recursively to the nested groups:
  a present scalar replaces the accumulator and an absent one leaves it unchanged;
  a non-empty list is appended to the accumulator's list;
  a non-empty map replaces the accumulator's map as a whole.
\<close>

definition mergeScalar :: "'a option \<Rightarrow> 'a option \<Rightarrow> 'a option" where
  "mergeScalar a b = (case b of Some v \<Rightarrow> Some v | None \<Rightarrow> a)"

definition mergeList :: "'a list \<Rightarrow> 'a list \<Rightarrow> 'a list" where
  "mergeList a b = (if b \<noteq> [] then a @ b else a)"

definition mergeMap :: "('k \<rightharpoonup> 'v) \<Rightarrow> ('k \<rightharpoonup> 'v) \<Rightarrow> ('k \<rightharpoonup> 'v)" where
  "mergeMap a b = (if b \<noteq> Map.empty then b else a)"

definition mergePorts :: "Ports \<Rightarrow> Ports \<Rightarrow> Ports" where
  "mergePorts a b = \<lparr>
     DNS = mergeScalar (DNS a) (DNS b),
     HTTP = mergeScalar (HTTP a) (HTTP b),
     HTTPS = mergeScalar (HTTPS a) (HTTPS b),
     SerfLAN = mergeScalar (SerfLAN a) (SerfLAN b),
     SerfWAN = mergeScalar (SerfWAN a) (SerfWAN b),
     Server = mergeScalar (Server a) (Server b),
     DeprecatedRPC = mergeScalar (DeprecatedRPC a) (DeprecatedRPC b)\<rparr>"

definition mergeRetryJoinAzure :: "RetryJoinAzure \<Rightarrow> RetryJoinAzure \<Rightarrow> RetryJoinAzure" where
  "mergeRetryJoinAzure a b = \<lparr>
     Azure_TagName = mergeScalar (Azure_TagName a) (Azure_TagName b),
     Azure_TagValue = mergeScalar (Azure_TagValue a) (Azure_TagValue b),
     Azure_SubscriptionID = mergeScalar (Azure_SubscriptionID a) (Azure_SubscriptionID b),
     Azure_TenantID = mergeScalar (Azure_TenantID a) (Azure_TenantID b),
     Azure_ClientID = mergeScalar (Azure_ClientID a) (Azure_ClientID b),
     Azure_SecretAccessKey = mergeScalar (Azure_SecretAccessKey a) (Azure_SecretAccessKey b)\<rparr>"

definition mergeRetryJoinEC2 :: "RetryJoinEC2 \<Rightarrow> RetryJoinEC2 \<Rightarrow> RetryJoinEC2" where
  "mergeRetryJoinEC2 a b = \<lparr>
     EC2_Region = mergeScalar (EC2_Region a) (EC2_Region b),
     EC2_TagKey = mergeScalar (EC2_TagKey a) (EC2_TagKey b),
     EC2_TagValue = mergeScalar (EC2_TagValue a) (EC2_TagValue b),
     EC2_AccessKeyID = mergeScalar (EC2_AccessKeyID a) (EC2_AccessKeyID b),
     EC2_SecretAccessKey = mergeScalar (EC2_SecretAccessKey a) (EC2_SecretAccessKey b)\<rparr>"

definition mergeRetryJoinGCE :: "RetryJoinGCE \<Rightarrow> RetryJoinGCE \<Rightarrow> RetryJoinGCE" where
  "mergeRetryJoinGCE a b = \<lparr>
     GCE_ProjectName = mergeScalar (GCE_ProjectName a) (GCE_ProjectName b),
     GCE_ZonePattern = mergeScalar (GCE_ZonePattern a) (GCE_ZonePattern b),
     GCE_TagValue = mergeScalar (GCE_TagValue a) (GCE_TagValue b),
     GCE_CredentialsFile = mergeScalar (GCE_CredentialsFile a) (GCE_CredentialsFile b)\<rparr>"

definition mergeConfigFile :: "ConfigFile \<Rightarrow> ConfigFile \<Rightarrow> ConfigFile" where
  "mergeConfigFile a b = \<lparr>
     AdvertiseAddrLAN = mergeScalar (AdvertiseAddrLAN a) (AdvertiseAddrLAN b),
     AdvertiseAddrWAN = mergeScalar (AdvertiseAddrWAN a) (AdvertiseAddrWAN b),
     BindAddr = mergeScalar (BindAddr a) (BindAddr b),
     Bootstrap = mergeScalar (Bootstrap a) (Bootstrap b),
     BootstrapExpect = mergeScalar (BootstrapExpect a) (BootstrapExpect b),
     CheckUpdateInterval = mergeScalar (CheckUpdateInterval a) (CheckUpdateInterval b),
     ClientAddr = mergeScalar (ClientAddr a) (ClientAddr b),
     DNSDomain = mergeScalar (DNSDomain a) (DNSDomain b),
     DNSRecursors = mergeList (DNSRecursors a) (DNSRecursors b),
     DataDir = mergeScalar (DataDir a) (DataDir b),
     Datacenter = mergeScalar (Datacenter a) (Datacenter b),
     DevMode = mergeScalar (DevMode a) (DevMode b),
     DisableHostNodeID = mergeScalar (DisableHostNodeID a) (DisableHostNodeID b),
     DisableKeyringFile = mergeScalar (DisableKeyringFile a) (DisableKeyringFile b),
     EnableScriptChecks = mergeScalar (EnableScriptChecks a) (EnableScriptChecks b),
     EnableSyslog = mergeScalar (EnableSyslog a) (EnableSyslog b),
     EnableUI = mergeScalar (EnableUI a) (EnableUI b),
     EncryptKey = mergeScalar (EncryptKey a) (EncryptKey b),
     JoinAddrsLAN = mergeList (JoinAddrsLAN a) (JoinAddrsLAN b),
     JoinAddrsWAN = mergeList (JoinAddrsWAN a) (JoinAddrsWAN b),
     LogLevel = mergeScalar (LogLevel a) (LogLevel b),
     NodeID = mergeScalar (NodeID a) (NodeID b),
     NodeMeta = mergeMap (NodeMeta a) (NodeMeta b),
     NodeName = mergeScalar (NodeName a) (NodeName b),
     NonVotingServer = mergeScalar (NonVotingServer a) (NonVotingServer b),
     PidFile = mergeScalar (PidFile a) (PidFile b),
     Ports = mergePorts (Ports a) (Ports b),
     RPCProtocol = mergeScalar (RPCProtocol a) (RPCProtocol b),
     RaftProtocol = mergeScalar (RaftProtocol a) (RaftProtocol b),
     RejoinAfterLeave = mergeScalar (RejoinAfterLeave a) (RejoinAfterLeave b),
     RetryJoinIntervalLAN = mergeScalar (RetryJoinIntervalLAN a) (RetryJoinIntervalLAN b),
     RetryJoinIntervalWAN = mergeScalar (RetryJoinIntervalWAN a) (RetryJoinIntervalWAN b),
     RetryJoinLAN = mergeList (RetryJoinLAN a) (RetryJoinLAN b),
     RetryJoinMaxAttemptsLAN =
       mergeScalar (RetryJoinMaxAttemptsLAN a) (RetryJoinMaxAttemptsLAN b),
     RetryJoinMaxAttemptsWAN =
       mergeScalar (RetryJoinMaxAttemptsWAN a) (RetryJoinMaxAttemptsWAN b),
     RetryJoinWAN = mergeList (RetryJoinWAN a) (RetryJoinWAN b),
     SerfBindAddrLAN = mergeScalar (SerfBindAddrLAN a) (SerfBindAddrLAN b),
     SerfBindAddrWAN = mergeScalar (SerfBindAddrWAN a) (SerfBindAddrWAN b),
     ServerMode = mergeScalar (ServerMode a) (ServerMode b),
     UIDir = mergeScalar (UIDir a) (UIDir b),
     DeprecatedRetryJoinAzure =
       mergeRetryJoinAzure (DeprecatedRetryJoinAzure a) (DeprecatedRetryJoinAzure b),
     DeprecatedRetryJoinEC2 =
       mergeRetryJoinEC2 (DeprecatedRetryJoinEC2 a) (DeprecatedRetryJoinEC2 b),
     DeprecatedRetryJoinGCE =
       mergeRetryJoinGCE (DeprecatedRetryJoinGCE a) (DeprecatedRetryJoinGCE b)\<rparr>"

text \<open>
  Modelled from the spec: \<^verbatim>\<open>Merge\<close>, which is not among the sources. The spec (4.1) builds
  the result by folding the fragments left to right with the rules above; the fold starts
  from the all-absent fragment.
\<close>

definition Merge :: "ConfigFile list \<Rightarrow> ConfigFile" where
  "Merge files = foldl mergeConfigFile ConfigFile_zero files"

text \<open>
  The fields of a fragment by kind, for stating a property of every scalar, list or map
  field: the optional strings, booleans and integers (durations included, and the fields
  of the nested groups), the lists and the one map.
\<close>

definition stringFields :: "(ConfigFile \<Rightarrow> string option) list" where
  "stringFields = [AdvertiseAddrLAN, AdvertiseAddrWAN, BindAddr, CheckUpdateInterval,
     ClientAddr, DNSDomain, DataDir, Datacenter, EncryptKey, LogLevel, NodeID, NodeName,
     PidFile, SerfBindAddrLAN, SerfBindAddrWAN, UIDir,
     \<lambda>f. Azure_TagName (DeprecatedRetryJoinAzure f),
     \<lambda>f. Azure_TagValue (DeprecatedRetryJoinAzure f),
     \<lambda>f. Azure_SubscriptionID (DeprecatedRetryJoinAzure f),
     \<lambda>f. Azure_TenantID (DeprecatedRetryJoinAzure f),
     \<lambda>f. Azure_ClientID (DeprecatedRetryJoinAzure f),
     \<lambda>f. Azure_SecretAccessKey (DeprecatedRetryJoinAzure f),
     \<lambda>f. EC2_Region (DeprecatedRetryJoinEC2 f),
     \<lambda>f. EC2_TagKey (DeprecatedRetryJoinEC2 f),
     \<lambda>f. EC2_TagValue (DeprecatedRetryJoinEC2 f),
     \<lambda>f. EC2_AccessKeyID (DeprecatedRetryJoinEC2 f),
     \<lambda>f. EC2_SecretAccessKey (DeprecatedRetryJoinEC2 f),
     \<lambda>f. GCE_ProjectName (DeprecatedRetryJoinGCE f),
     \<lambda>f. GCE_ZonePattern (DeprecatedRetryJoinGCE f),
     \<lambda>f. GCE_TagValue (DeprecatedRetryJoinGCE f),
     \<lambda>f. GCE_CredentialsFile (DeprecatedRetryJoinGCE f)]"

definition boolFields :: "(ConfigFile \<Rightarrow> bool option) list" where
  "boolFields = [Bootstrap, DevMode, DisableHostNodeID, DisableKeyringFile,
     EnableScriptChecks, EnableSyslog, EnableUI, NonVotingServer, RejoinAfterLeave,
     ServerMode]"

definition intFields :: "(ConfigFile \<Rightarrow> int option) list" where
  "intFields = [BootstrapExpect, RPCProtocol, RaftProtocol, RetryJoinIntervalLAN,
     RetryJoinIntervalWAN, RetryJoinMaxAttemptsLAN, RetryJoinMaxAttemptsWAN,
     \<lambda>f. DNS (Ports f), \<lambda>f. HTTP (Ports f), \<lambda>f. HTTPS (Ports f), \<lambda>f. SerfLAN (Ports f),
     \<lambda>f. SerfWAN (Ports f), \<lambda>f. Server (Ports f), \<lambda>f. DeprecatedRPC (Ports f)]"

definition listFields :: "(ConfigFile \<Rightarrow> string list) list" where
  "listFields = [DNSRecursors, JoinAddrsLAN, JoinAddrsWAN, RetryJoinLAN, RetryJoinWAN]"

definition mapFields :: "(ConfigFile \<Rightarrow> (string \<rightharpoonup> string)) list" where
  "mapFields = [NodeMeta]"

text \<open>
  What the spec's last-writer-wins says a scalar field of the merged fragment is: the value
  in the last fragment that has the field present, absent when none has.
\<close>

fun lastPresent :: "'a option list \<Rightarrow> 'a option" where
  "lastPresent [] = None"
| "lastPresent (x # xs) = (case lastPresent xs of Some v \<Rightarrow> Some v | None \<Rightarrow> x)"

section \<open>Flags\<close>

record Flags =
  File :: ConfigFile
  ConfigFiles :: "string list"
  DeprecatedDatacenter :: "string option"
  DeprecatedAtlasInfrastructure :: "string option"
  DeprecatedAtlasJoin :: "bool option"
  DeprecatedAtlasToken :: "string option"
  DeprecatedAtlasEndpoint :: "string option"

definition Flags_zero :: Flags where
  "Flags_zero = \<lparr>File = ConfigFile_zero, ConfigFiles = [], DeprecatedDatacenter = None,
     DeprecatedAtlasInfrastructure = None, DeprecatedAtlasJoin = None,
     DeprecatedAtlasToken = None, DeprecatedAtlasEndpoint = None\<rparr>"

text \<open>
  \<^verbatim>\<open>AddFlags\<close> hands the address of a field of \<^verbatim>\<open>f\<close> to each flag value, which later
  writes through it. The model of such an address is the update function of the field:
  \<^verbatim>\<open>&f.File.Ports.DNS\<close> is \<open>\<lambda>g. File_update (Ports_update (DNS_update g))\<close>, which applies
  \<open>g\<close> to that field of a \<^verbatim>\<open>Flags\<close> value and leaves the other fields as they are.
\<close>

type_synonym 'a ptr = "('a \<Rightarrow> 'a) \<Rightarrow> Flags \<Rightarrow> Flags"

text \<open>
  The six flag values that the type switch of \<^verbatim>\<open>add\<close> creates, one per pointer type.
\<close>

datatype Value =
    newBoolPtrValue "bool option ptr"
  | newDurationPtrValue "int option ptr"
  | newIntPtrValue "int option ptr"
  | newStringPtrValue "string option ptr"
  | newStringSliceValue "string list ptr"
  | newStringMapValue "(string \<rightharpoonup> string) ptr"

subsection \<open>Library parsers used by the flag values\<close>

text \<open>
  \<^verbatim>\<open>strconv.ParseBool\<close> of the Go standard library accepts exactly twelve literals.
\<close>

definition ParseBool :: "string \<Rightarrow> error + bool" where
  "ParseBool str =
     (if str \<in> set [''1'', ''t'', ''T'', ''true'', ''TRUE'', ''True''] then Inr True
      else if str \<in> set [''0'', ''f'', ''F'', ''false'', ''FALSE'', ''False''] then Inr False
      else Inl (ErrParseBool str))"

text \<open>
  \<^verbatim>\<open>strconv.Atoi\<close> of the Go standard library reads an optional sign and one or more decimal
  digits, and rejects a value outside the range of \<^verbatim>\<open>int\<close> (64 bits assumed).
\<close>

definition digitVal :: "char \<Rightarrow> int option" where
  "digitVal c = map_of [(CHR ''0'', 0), (CHR ''1'', 1), (CHR ''2'', 2), (CHR ''3'', 3),
     (CHR ''4'', 4), (CHR ''5'', 5), (CHR ''6'', 6), (CHR ''7'', 7), (CHR ''8'', 8),
     (CHR ''9'', 9)] c"

fun decimal :: "int \<Rightarrow> string \<Rightarrow> int option" where
  "decimal acc [] = Some acc"
| "decimal acc (c # cs) =
     (case digitVal c of None \<Rightarrow> None | Some d \<Rightarrow> decimal (10 * acc + d) cs)"

definition Atoi :: "string \<Rightarrow> error + int" where
  "Atoi s =
     (let neg = (s \<noteq> [] \<and> hd s = CHR ''-'');
          ds = (if s \<noteq> [] \<and> (hd s = CHR ''-'' \<or> hd s = CHR ''+'') then tl s else s)
      in if ds = [] then Inl (ErrAtoi s)
         else (case decimal 0 ds of
                 None \<Rightarrow> Inl (ErrAtoi s)
               | Some n \<Rightarrow>
                   let i = (if neg then - n else n)
                   in if - (2 ^ 63) \<le> i \<and> i < 2 ^ 63 then Inr i else Inl (ErrAtoi s)))"

subsection \<open>The flag values\<close>

text \<open>The split of a map entry at its first colon; \<open>None\<close> when there is no colon.\<close>

fun splitColon :: "string \<Rightarrow> (string \<times> string) option" where
  "splitColon [] = None"
| "splitColon (c # cs) =
     (if c = CHR '':'' then Some ([], cs)
      else (case splitColon cs of None \<Rightarrow> None | Some (k, v) \<Rightarrow> Some (c # k, v)))"

text \<open>
  Modelled from the spec: the flag value types behind \<^verbatim>\<open>newBoolPtrValue\<close>,
  \<^verbatim>\<open>newDurationPtrValue\<close>, \<^verbatim>\<open>newIntPtrValue\<close>, \<^verbatim>\<open>newStringPtrValue\<close>,
  \<^verbatim>\<open>newStringSliceValue\<close> and \<^verbatim>\<open>newStringMapValue\<close> (their methods \<^verbatim>\<open>Set\<close> and
  \<^verbatim>\<open>IsBoolFlag\<close>) are not among the sources. The spec (4.2) says: an occurrence of a scalar
  flag sets the field to the parsed value, present, replacing an earlier occurrence, and a
  value that does not parse as int, duration or map entry is an error; a list flag appends
  one string; a map flag splits its argument at the first colon into key and value, fails
  when there is no colon, and inserts or overwrites by key; a boolean flag may stand alone
  and then means true, and its value is a boolean literal. Integers are read with
  \<open>Atoi\<close>, boolean literals with \<open>ParseBool\<close> and durations with the parameter \<open>pd\<close>.
  A flag that may stand alone is what the library's \<^verbatim>\<open>flag\<close> package calls a boolean flag
  (\<^verbatim>\<open>IsBoolFlag\<close>); \<^verbatim>\<open>TestParseFlags\<close> expects \<^verbatim>\<open>-bootstrap\<close> alone to parse.
\<close>

fun Set :: "(string \<Rightarrow> error + int) \<Rightarrow> Value \<Rightarrow> string \<Rightarrow> Flags \<Rightarrow> error + Flags" where
  "Set pd (newBoolPtrValue p) val f =
     (case ParseBool val of Inl e \<Rightarrow> Inl e | Inr b \<Rightarrow> Inr (p (\<lambda>_. Some b) f))"
| "Set pd (newDurationPtrValue p) val f =
     (case pd val of Inl e \<Rightarrow> Inl e | Inr d \<Rightarrow> Inr (p (\<lambda>_. Some d) f))"
| "Set pd (newIntPtrValue p) val f =
     (case Atoi val of Inl e \<Rightarrow> Inl e | Inr n \<Rightarrow> Inr (p (\<lambda>_. Some n) f))"
| "Set pd (newStringPtrValue p) val f = Inr (p (\<lambda>_. Some val) f)"
| "Set pd (newStringSliceValue p) val f = Inr (p (\<lambda>xs. xs @ [val]) f)"
| "Set pd (newStringMapValue p) val f =
     (case splitColon val of
        None \<Rightarrow> Inl (ErrMissingColon val)
      | Some (k, v) \<Rightarrow> Inr (p (\<lambda>m. m(k \<mapsto> v)) f))"

text \<open>
  Modelled from the spec: \<^verbatim>\<open>IsBoolFlag\<close> of the flag value types, which is not among the
  sources. The spec (4.2) lets the boolean flags, and no others, stand alone.
\<close>

fun IsBoolFlag :: "Value \<Rightarrow> bool" where
  "IsBoolFlag (newBoolPtrValue p) = True"
| "IsBoolFlag _ = False"

subsection \<open>AddFlags\<close>

text \<open>
  The flag set after \<^verbatim>\<open>AddFlags\<close>: every call \<^verbatim>\<open>add(&f.X, name, help)\<close> in the order of the
  source, as the pair of the flag name and the flag value that the type switch of \<^verbatim>\<open>add\<close>
  picks for the type of \<^verbatim>\<open>&f.X\<close>. The help texts are left out. \<^verbatim>\<open>fs.Var\<close> panics when a
  name is defined twice; the names below are distinct.
\<close>

definition AddFlags :: "(string \<times> Value) list" where
  "AddFlags = [
     (''advertise'', newStringPtrValue (\<lambda>g. File_update (AdvertiseAddrLAN_update g))),
     (''advertise-wan'', newStringPtrValue (\<lambda>g. File_update (AdvertiseAddrWAN_update g))),
     (''bind'', newStringPtrValue (\<lambda>g. File_update (BindAddr_update g))),
     (''bootstrap'', newBoolPtrValue (\<lambda>g. File_update (Bootstrap_update g))),
     (''bootstrap-expect'', newIntPtrValue (\<lambda>g. File_update (BootstrapExpect_update g))),
     (''client'', newStringPtrValue (\<lambda>g. File_update (ClientAddr_update g))),
     (''config-dir'', newStringSliceValue ConfigFiles_update),
     (''config-file'', newStringSliceValue ConfigFiles_update),
     (''data-dir'', newStringPtrValue (\<lambda>g. File_update (DataDir_update g))),
     (''datacenter'', newStringPtrValue (\<lambda>g. File_update (Datacenter_update g))),
     (''dev'', newBoolPtrValue (\<lambda>g. File_update (DevMode_update g))),
     (''disable-host-node-id'', newBoolPtrValue (\<lambda>g. File_update (DisableHostNodeID_update g))),
     (''disable-keyring-file'', newBoolPtrValue (\<lambda>g. File_update (DisableKeyringFile_update g))),
     (''dns-port'', newIntPtrValue (\<lambda>g. File_update (Ports_update (DNS_update g)))),
     (''domain'', newStringPtrValue (\<lambda>g. File_update (DNSDomain_update g))),
     (''enable-script-checks'', newBoolPtrValue (\<lambda>g. File_update (EnableScriptChecks_update g))),
     (''encrypt'', newStringPtrValue (\<lambda>g. File_update (EncryptKey_update g))),
     (''http-port'', newIntPtrValue (\<lambda>g. File_update (Ports_update (HTTP_update g)))),
     (''join'', newStringSliceValue (\<lambda>g. File_update (JoinAddrsLAN_update g))),
     (''join-wan'', newStringSliceValue (\<lambda>g. File_update (JoinAddrsWAN_update g))),
     (''log-level'', newStringPtrValue (\<lambda>g. File_update (LogLevel_update g))),
     (''node'', newStringPtrValue (\<lambda>g. File_update (NodeName_update g))),
     (''node-id'', newStringPtrValue (\<lambda>g. File_update (NodeID_update g))),
     (''node-meta'', newStringMapValue (\<lambda>g. File_update (NodeMeta_update g))),
     (''non-voting-server'', newBoolPtrValue (\<lambda>g. File_update (NonVotingServer_update g))),
     (''pid-file'', newStringPtrValue (\<lambda>g. File_update (PidFile_update g))),
     (''protocol'', newIntPtrValue (\<lambda>g. File_update (RPCProtocol_update g))),
     (''raft-protocol'', newIntPtrValue (\<lambda>g. File_update (RaftProtocol_update g))),
     (''recursor'', newStringSliceValue (\<lambda>g. File_update (DNSRecursors_update g))),
     (''rejoin'', newBoolPtrValue (\<lambda>g. File_update (RejoinAfterLeave_update g))),
     (''retry-interval'', newDurationPtrValue (\<lambda>g. File_update (RetryJoinIntervalLAN_update g))),
     (''retry-interval-wan'',
        newDurationPtrValue (\<lambda>g. File_update (RetryJoinIntervalWAN_update g))),
     (''retry-join'', newStringSliceValue (\<lambda>g. File_update (RetryJoinLAN_update g))),
     (''retry-join-wan'', newStringSliceValue (\<lambda>g. File_update (RetryJoinWAN_update g))),
     (''retry-max'', newIntPtrValue (\<lambda>g. File_update (RetryJoinMaxAttemptsLAN_update g))),
     (''retry-max-wan'', newIntPtrValue (\<lambda>g. File_update (RetryJoinMaxAttemptsWAN_update g))),
     (''serf-lan-bind'', newStringPtrValue (\<lambda>g. File_update (SerfBindAddrLAN_update g))),
     (''serf-wan-bind'', newStringPtrValue (\<lambda>g. File_update (SerfBindAddrWAN_update g))),
     (''server'', newBoolPtrValue (\<lambda>g. File_update (ServerMode_update g))),
     (''syslog'', newBoolPtrValue (\<lambda>g. File_update (EnableSyslog_update g))),
     (''ui'', newBoolPtrValue (\<lambda>g. File_update (EnableUI_update g))),
     (''ui-dir'', newStringPtrValue (\<lambda>g. File_update (UIDir_update g))),
     (''atlas'', newStringPtrValue DeprecatedAtlasInfrastructure_update),
     (''atlas-endpoint'', newStringPtrValue DeprecatedAtlasEndpoint_update),
     (''atlas-join'', newBoolPtrValue DeprecatedAtlasJoin_update),
     (''atlas-token'', newStringPtrValue DeprecatedAtlasToken_update),
     (''dc'', newStringPtrValue DeprecatedDatacenter_update),
     (''retry-join-azure-tag-name'', newStringPtrValue
        (\<lambda>g. File_update (DeprecatedRetryJoinAzure_update (Azure_TagName_update g)))),
     (''retry-join-azure-tag-value'', newStringPtrValue
        (\<lambda>g. File_update (DeprecatedRetryJoinAzure_update (Azure_TagValue_update g)))),
     (''retry-join-ec2-region'', newStringPtrValue
        (\<lambda>g. File_update (DeprecatedRetryJoinEC2_update (EC2_Region_update g)))),
     (''retry-join-ec2-tag-key'', newStringPtrValue
        (\<lambda>g. File_update (DeprecatedRetryJoinEC2_update (EC2_TagKey_update g)))),
     (''retry-join-ec2-tag-value'', newStringPtrValue
        (\<lambda>g. File_update (DeprecatedRetryJoinEC2_update (EC2_TagValue_update g)))),
     (''retry-join-gce-credentials-file'', newStringPtrValue
        (\<lambda>g. File_update (DeprecatedRetryJoinGCE_update (GCE_CredentialsFile_update g)))),
     (''retry-join-gce-project-name'', newStringPtrValue
        (\<lambda>g. File_update (DeprecatedRetryJoinGCE_update (GCE_ProjectName_update g)))),
     (''retry-join-gce-tag-value'', newStringPtrValue
        (\<lambda>g. File_update (DeprecatedRetryJoinGCE_update (GCE_TagValue_update g)))),
     (''retry-join-gce-zone-pattern'', newStringPtrValue
        (\<lambda>g. File_update (DeprecatedRetryJoinGCE_update (GCE_ZonePattern_update g))))]"

subsection \<open>The library's flag parser\<close>

text \<open>
  \<^verbatim>\<open>ParseFlags\<close> calls \<^verbatim>\<open>fs.Parse\<close> of the Go standard library's \<^verbatim>\<open>flag\<close> package on a
  flag set created with \<^verbatim>\<open>flag.ContinueOnError\<close>. \<^verbatim>\<open>Parse\<close> calls the library's
  \<^verbatim>\<open>parseOne\<close> until it reports no flag seen: \<^verbatim>\<open>parseOne\<close> returns \<^verbatim>\<open>(true, nil)\<close> after a
  flag (\<open>Seen\<close>, with the flags written so far and the arguments left), \<^verbatim>\<open>(false, nil)\<close> at
  the end of the flags (\<open>NotSeen\<close>) and \<^verbatim>\<open>(false, err)\<close> on an error (\<open>Failed\<close>). The
  messages the library prints are not modelled.

  The library reaches the flag values through the interface \<^verbatim>\<open>flag.Value\<close> only: it calls
  their methods \<^verbatim>\<open>IsBoolFlag\<close> and \<^verbatim>\<open>Set\<close>. The model of the library therefore takes the
  two methods as the parameters \<open>isBool\<close> and \<open>setValue\<close>; \<^verbatim>\<open>ParseFlags\<close> passes \<open>IsBoolFlag\<close>
  and \<open>Set pd\<close>.
\<close>

datatype parseOneResult = Seen Flags "string list" | NotSeen "string list" | Failed error

text \<open>
  The library's loop over \<^verbatim>\<open>name[1:]\<close> that looks for an equals sign: the name before it,
  whether there is one, and the value after it.
\<close>

fun findEquals :: "string \<Rightarrow> (string \<times> string) option" where
  "findEquals [] = None"
| "findEquals (c # cs) =
     (if c = CHR ''='' then Some ([], cs)
      else (case findEquals cs of None \<Rightarrow> None | Some (n, v) \<Rightarrow> Some (c # n, v)))"

definition splitEquals :: "string \<Rightarrow> string \<times> bool \<times> string" where
  "splitEquals name =
     (case findEquals (tl name) of
        None \<Rightarrow> (name, False, [])
      | Some (n, v) \<Rightarrow> (hd name # n, True, v))"

text \<open>
  \<^verbatim>\<open>parseOne\<close> in two parts. \<open>parseOne\<close> itself is the first half of the library function:
  it recognises the end of the flags, strips the dashes and cuts the argument into name
  and value. \<open>applyFlag\<close> is the second half, from the lookup \<^verbatim>\<open>m[name]\<close> on: it finds
  the flag, takes the value from the next argument where the flag needs one, and calls
  \<^verbatim>\<open>Set\<close>.
\<close>

definition applyFlag ::
  "('v \<Rightarrow> bool) \<Rightarrow> ('v \<Rightarrow> string \<Rightarrow> Flags \<Rightarrow> error + Flags) \<Rightarrow> (string \<times> 'v) list \<Rightarrow> Flags
     \<Rightarrow> string \<Rightarrow> bool \<Rightarrow> string \<Rightarrow> string list \<Rightarrow> parseOneResult" where
  "applyFlag isBool setValue formal f name hasValue value rest =
     (case map_of formal name of
        None \<Rightarrow>
          if name = ''help'' \<or> name = ''h'' then Failed ErrHelp
          else Failed (ErrNotDefined name)
      | Some flag \<Rightarrow>
          if isBool flag then
            (if hasValue then
               (case setValue flag value f of
                  Inl e \<Rightarrow> Failed (ErrInvalidBoolValue value name e)
                | Inr f' \<Rightarrow> Seen f' rest)
             else
               (case setValue flag ''true'' f of
                  Inl e \<Rightarrow> Failed (ErrInvalidBoolFlag name e)
                | Inr f' \<Rightarrow> Seen f' rest))
          else
            let (hasValue, value, rest) =
                  (if \<not> hasValue \<and> rest \<noteq> [] then (True, hd rest, tl rest)
                   else (hasValue, value, rest))
            in if \<not> hasValue then Failed (ErrNeedsArgument name)
               else (case setValue flag value f of
                       Inl e \<Rightarrow> Failed (ErrInvalidValue value name e)
                     | Inr f' \<Rightarrow> Seen f' rest))"

definition parseOne ::
  "('v \<Rightarrow> bool) \<Rightarrow> ('v \<Rightarrow> string \<Rightarrow> Flags \<Rightarrow> error + Flags) \<Rightarrow> (string \<times> 'v) list \<Rightarrow> Flags
     \<Rightarrow> string list \<Rightarrow> parseOneResult" where
  "parseOne isBool setValue formal f args =
     (case args of
        [] \<Rightarrow> NotSeen []
      | s # rest \<Rightarrow>
          if length s < 2 \<or> hd s \<noteq> CHR ''-'' then NotSeen args
          else if s ! 1 = CHR ''-'' \<and> length s = 2 then NotSeen rest
          else
            let numMinuses = (if s ! 1 = CHR ''-'' then 2 else 1);
                name = drop numMinuses s
            in if name = [] \<or> hd name = CHR ''-'' \<or> hd name = CHR ''=''
               then Failed (ErrBadFlagSyntax s)
               else
                 let (name, hasValue, value) = splitEquals name
                 in applyFlag isBool setValue formal f name hasValue value rest)"

lemma applyFlag_Seen_length:
  "applyFlag isBool setValue formal f name hasValue value rest = Seen f' args' \<Longrightarrow>
     length args' \<le> length rest"
  by (cases rest)
    (auto simp: applyFlag_def split: option.splits if_splits sum.splits)

lemma parseOne_Seen_length:
  "parseOne isBool setValue formal f args = Seen f' args' \<Longrightarrow> length args' < length args"
  by (cases args)
    (auto simp: parseOne_def Let_def dest: applyFlag_Seen_length split: if_splits prod.splits)

function Parse ::
  "('v \<Rightarrow> bool) \<Rightarrow> ('v \<Rightarrow> string \<Rightarrow> Flags \<Rightarrow> error + Flags) \<Rightarrow> (string \<times> 'v) list \<Rightarrow> Flags
     \<Rightarrow> string list \<Rightarrow> error + Flags \<times> string list" where
  "Parse isBool setValue formal f args =
     (case parseOne isBool setValue formal f args of
        Seen f' args' \<Rightarrow> Parse isBool setValue formal f' args'
      | NotSeen args' \<Rightarrow> Inr (f, args')
      | Failed e \<Rightarrow> Inl e)"
  by pat_completeness auto
termination
  by (relation "measure (\<lambda>(isBool, setValue, formal, f, args). length args)")
    (auto simp: parseOne_Seen_length)

declare Parse.simps [simp del]

subsection \<open>ParseFlags\<close>

definition ParseFlags :: "(string \<Rightarrow> error + int) \<Rightarrow> string list \<Rightarrow> Flags \<times> error option" where
  "ParseFlags pd args =
     (case Parse IsBoolFlag (Set pd) AddFlags Flags_zero args of
        Inl err \<Rightarrow> (Flags_zero, Some err)
      | Inr (f, rest) \<Rightarrow> (f, None))"

text \<open>
  The arguments that \<^verbatim>\<open>Parse\<close> leaves unread (the library keeps them in \<^verbatim>\<open>fs.Args()\<close>;
  \<^verbatim>\<open>ParseFlags\<close> does not look at them).
\<close>

definition remainingArgs :: "(string \<Rightarrow> error + int) \<Rightarrow> string list \<Rightarrow> string list option" where
  "remainingArgs pd args =
     (case Parse IsBoolFlag (Set pd) AddFlags Flags_zero args of Inl err \<Rightarrow> None | Inr (f, rest) \<Rightarrow> Some rest)"

text \<open>
  \<open>consumed pd f pre\<close> is the \<^verbatim>\<open>Flags\<close> value after \<^verbatim>\<open>Parse\<close> has read all of \<open>pre\<close> as
  flags and their values, starting from \<open>f\<close>; it is \<open>None\<close> when \<^verbatim>\<open>Parse\<close> fails or stops
  inside \<open>pre\<close>.
\<close>

function consumed ::
  "(string \<Rightarrow> error + int) \<Rightarrow> Flags \<Rightarrow> string list \<Rightarrow> Flags option" where
  "consumed pd f args =
     (if args = [] then Some f
      else (case parseOne IsBoolFlag (Set pd) AddFlags f args of
              Seen f' args' \<Rightarrow> consumed pd f' args'
            | NotSeen args' \<Rightarrow> None
            | Failed e \<Rightarrow> None))"
  by pat_completeness auto
termination
  by (relation "measure (\<lambda>(pd, f, args). length args)")
    (auto simp: parseOne_Seen_length)

declare consumed.simps [simp del]

section \<open>Properties of NewConfig\<close>

lemma Itoa_123: "Itoa 123 = ''123''"
  by (simp add: Itoa_def natDigits.simps)

lemma Ports_zero_iff:
  "(p = Ports_zero) = (DNS p = None \<and> HTTP p = None \<and> HTTPS p = None \<and> SerfLAN p = None \<and>
     SerfWAN p = None \<and> Server p = None \<and> DeprecatedRPC p = None)"
  by (cases p) (auto simp: Ports_zero_def)

lemma foldl_appendDNSAddrs_BindAddrs [simp]:
  "BindAddrs (foldl appendDNSAddrs c as) = BindAddrs c"
  by (induction as arbitrary: c) (simp_all add: appendDNSAddrs_def)

lemma foldl_appendDNSAddrs_DNSPort [simp]:
  "DNSPort (foldl appendDNSAddrs c as) = DNSPort c"
  by (induction as arbitrary: c) (simp_all add: appendDNSAddrs_def)

lemma foldl_appendDNSAddrs_TCP:
  "DNSAddrsTCP (foldl appendDNSAddrs c as) =
     DNSAddrsTCP c @ map (\<lambda>a. joinHostPort a (DNSPort c)) as"
  by (induction as arbitrary: c) (simp_all add: appendDNSAddrs_def)

lemma foldl_appendDNSAddrs_UDP:
  "DNSAddrsUDP (foldl appendDNSAddrs c as) =
     DNSAddrsUDP c @ map (\<lambda>a. joinHostPort a (DNSPort c)) as"
  by (induction as arbitrary: c) (simp_all add: appendDNSAddrs_def)

text \<open>What \<^verbatim>\<open>NewConfig\<close> returns, field by field, on the path that reaches the final
  \<^verbatim>\<open>return\<close>.\<close>

lemma NewConfig_no_bind_addr_error:
  "BindAddr f = None \<Longrightarrow> Ports f \<noteq> Ports_zero \<Longrightarrow>
     NewConfig pd f = (Config_zero, Some ErrNoBindAddr)"
  by (simp add: NewConfig_def Let_def split: prod.splits)

lemma NewConfig_err:
  "BindAddr f \<noteq> None \<or> Ports f = Ports_zero \<Longrightarrow>
     snd (NewConfig pd f) = snd (durationVal pd None (CheckUpdateInterval f))"
  by (auto simp: NewConfig_def Let_def split: prod.splits)

lemma NewConfig_BindAddrs:
  "BindAddrs (fst (NewConfig pd f)) =
     (case BindAddr f of None \<Rightarrow> []
      | Some a \<Rightarrow> [addrVal (snd (durationVal pd None (CheckUpdateInterval f))) (Some a)])"
  by (auto simp: NewConfig_def Let_def Config_zero_def appendDNSAddrs_def
      split: prod.splits option.splits)

lemma NewConfig_DNSAddrs:
  assumes "BindAddr f \<noteq> None" and "DNS (Ports f) \<noteq> None"
  shows "DNSAddrsTCP (fst (NewConfig pd f)) =
           map (\<lambda>a. joinHostPort a (DNSPort (fst (NewConfig pd f)))) (BindAddrs (fst (NewConfig pd f)))"
    and "DNSAddrsUDP (fst (NewConfig pd f)) =
           map (\<lambda>a. joinHostPort a (DNSPort (fst (NewConfig pd f)))) (BindAddrs (fst (NewConfig pd f)))"
  using assms
  by (auto simp: NewConfig_def Let_def Config_zero_def appendDNSAddrs_def split: prod.splits)

lemma NewConfig_DNSAddrs_length:
  "length (DNSAddrsTCP (fst (NewConfig pd f))) \<le> 1 \<and>
   length (DNSAddrsUDP (fst (NewConfig pd f))) \<le> 1"
  by (auto simp: NewConfig_def Let_def Config_zero_def appendDNSAddrs_def
      split: prod.splits option.splits)

lemma NewConfig_copied_fields:
  assumes "BindAddr f \<noteq> None \<or> Ports f = Ports_zero"
  shows "Config_Bootstrap (fst (NewConfig pd f)) = boolVal None (Bootstrap f)"
    and "Config_JoinAddrsLAN (fst (NewConfig pd f)) = JoinAddrsLAN f"
    and "Config_NodeMeta (fst (NewConfig pd f)) = NodeMeta f"
  using assms
  by (auto simp: NewConfig_def Let_def Config_zero_def appendDNSAddrs_def
      split: prod.splits option.splits)

text \<open>
  C1. A fragment whose \<^verbatim>\<open>CheckUpdateInterval\<close> does not parse makes \<^verbatim>\<open>NewConfig\<close> return
  the error of \<^verbatim>\<open>time.ParseDuration\<close>, but together with the configuration computed so
  far, not with the zero \<^verbatim>\<open>Config\<close>: on the fragment with \<^verbatim>\<open>Bootstrap\<close> true,
  \<^verbatim>\<open>CheckUpdateInterval\<close> "x", \<^verbatim>\<open>JoinAddrsLAN\<close> ["a"] and \<^verbatim>\<open>NodeMeta\<close> {k: v} the returned
  \<^verbatim>\<open>Config\<close> still holds \<^verbatim>\<open>Bootstrap\<close>, \<^verbatim>\<open>JoinAddrsLAN\<close> and \<^verbatim>\<open>NodeMeta\<close> of the
  fragment.
\<close>

theorem NewConfig_bad_duration_returns_partial:
  "NewConfig parseDuration_ex
     (ConfigFile_zero\<lparr>Bootstrap := Some True, CheckUpdateInterval := Some ''x'',
        JoinAddrsLAN := [''a''], NodeMeta := [''k'' \<mapsto> ''v'']\<rparr>)
   = (Config_zero\<lparr>Config_Bootstrap := True, Config_JoinAddrsLAN := [''a''],
        Config_NodeMeta := [''k'' \<mapsto> ''v'']\<rparr>, Some (ErrParseDuration ''x''))"
  by (simp add: NewConfig_def ConfigFile_zero_def Config_zero_def boolVal_def durationVal_def
      stringVal_def parseDuration_ex_def Let_def Ports_zero_def)

text \<open>
  The same for every fragment and every duration parser: when the interval does not
  parse and the check for a missing bind address does not fire, the error is returned
  with the fields copied before and after the failure.
\<close>

lemma NewConfig_bad_duration_general:
  assumes "CheckUpdateInterval f = Some s" and "pd s = Inl e"
    and "BindAddr f \<noteq> None \<or> Ports f = Ports_zero"
  shows "snd (NewConfig pd f) = Some e"
    and "Config_Bootstrap (fst (NewConfig pd f)) = (Bootstrap f = Some True)"
    and "Config_JoinAddrsLAN (fst (NewConfig pd f)) = JoinAddrsLAN f"
    and "Config_NodeMeta (fst (NewConfig pd f)) = NodeMeta f"
  using assms NewConfig_err [of f pd] NewConfig_copied_fields [of f pd]
  by (auto simp: durationVal_def boolVal_def)

text \<open>
  C2 (as stated). With the bind address absent, \<^verbatim>\<open>NewConfig\<close> does not substitute the
  wildcard address: \<^verbatim>\<open>BindAddrs\<close> of the result is empty.
\<close>

theorem NewConfig_absent_bind_addr_counterexample:
  "BindAddr ConfigFile_zero = None \<and>
   NewConfig parseDuration_ex ConfigFile_zero = (Config_zero, None) \<and>
   BindAddrs (fst (NewConfig parseDuration_ex ConfigFile_zero)) \<noteq> [''0.0.0.0'']"
  by (simp add: NewConfig_def ConfigFile_zero_def Config_zero_def boolVal_def durationVal_def
      stringVal_def Let_def Ports_zero_def)

text \<open>
  C2 (amended). A bind address that is present and empty resolves to \<^verbatim>\<open>0.0.0.0\<close>; an
  absent one leaves \<^verbatim>\<open>BindAddrs\<close> empty (the helper \<^verbatim>\<open>addrVal\<close> maps both nil and the
  empty string to \<^verbatim>\<open>0.0.0.0\<close>, but \<^verbatim>\<open>NewConfig\<close> calls it for a present bind address
  only). Every DNS listener address is \<^verbatim>\<open>joinHostPort\<close> of a bind address and the DNS
  port, which renders the host \<^verbatim>\<open>0.0.0.0\<close> as the empty host followed by a colon and the
  decimal port; bind address \<^verbatim>\<open>0.0.0.0\<close> with DNS port 123 gives [":123"] for TCP and UDP.
\<close>

theorem NewConfig_bind_addr_normalization:
  "(BindAddr f = Some [] \<longrightarrow> BindAddrs (fst (NewConfig pd f)) = [''0.0.0.0'']) \<and>
   (BindAddr f = None \<longrightarrow> BindAddrs (fst (NewConfig pd f)) = []) \<and>
   addrVal None None = ''0.0.0.0'' \<and> addrVal None (Some []) = ''0.0.0.0'' \<and>
   joinHostPort ''0.0.0.0'' p = '':'' @ Itoa p \<and>
   (BindAddr f \<noteq> None \<and> DNS (Ports f) \<noteq> None \<longrightarrow>
      DNSAddrsTCP (fst (NewConfig pd f)) =
        map (\<lambda>a. joinHostPort a (DNSPort (fst (NewConfig pd f)))) (BindAddrs (fst (NewConfig pd f))) \<and>
      DNSAddrsUDP (fst (NewConfig pd f)) =
        map (\<lambda>a. joinHostPort a (DNSPort (fst (NewConfig pd f)))) (BindAddrs (fst (NewConfig pd f)))) \<and>
   NewConfig pd (ConfigFile_zero\<lparr>BindAddr := Some ''0.0.0.0'',
       Ports := Ports_zero\<lparr>DNS := Some 123\<rparr>\<rparr>)
     = (Config_zero\<lparr>BindAddrs := [''0.0.0.0''], DNSPort := 123, DNSAddrsTCP := ['':123''],
          DNSAddrsUDP := ['':123'']\<rparr>, None)"
proof -
  have "BindAddr f = Some [] \<longrightarrow> BindAddrs (fst (NewConfig pd f)) = [''0.0.0.0'']"
    by (simp add: NewConfig_BindAddrs addrVal_def stringVal_def)
  moreover have "BindAddr f = None \<longrightarrow> BindAddrs (fst (NewConfig pd f)) = []"
    by (simp add: NewConfig_BindAddrs)
  moreover have "addrVal None None = ''0.0.0.0''" "addrVal None (Some []) = ''0.0.0.0''"
    by (simp_all add: addrVal_def stringVal_def)
  moreover have "joinHostPort ''0.0.0.0'' p = '':'' @ Itoa p"
    by (simp add: joinHostPort_def JoinHostPort_def)
  moreover have "NewConfig pd (ConfigFile_zero\<lparr>BindAddr := Some ''0.0.0.0'',
       Ports := Ports_zero\<lparr>DNS := Some 123\<rparr>\<rparr>)
     = (Config_zero\<lparr>BindAddrs := [''0.0.0.0''], DNSPort := 123, DNSAddrsTCP := ['':123''],
          DNSAddrsUDP := ['':123'']\<rparr>, None)"
    by (simp add: NewConfig_def ConfigFile_zero_def Config_zero_def boolVal_def durationVal_def
        stringVal_def intVal_def addrVal_def appendDNSAddrs_def joinHostPort_def
        JoinHostPort_def Itoa_123 Let_def Ports_zero_def)
  ultimately show ?thesis
    using NewConfig_DNSAddrs [of f pd] by blast
qed

theorem NewConfig_bind_addr_normalization_witness:
  "BindAddr (ConfigFile_zero\<lparr>BindAddr := Some [], Ports := Ports_zero\<lparr>DNS := Some 53\<rparr>\<rparr>) = Some [] \<and>
   DNS (Ports (ConfigFile_zero\<lparr>BindAddr := Some [], Ports := Ports_zero\<lparr>DNS := Some 53\<rparr>\<rparr>)) \<noteq> None \<and>
   BindAddrs (fst (NewConfig parseDuration_ex
     (ConfigFile_zero\<lparr>BindAddr := Some [], Ports := Ports_zero\<lparr>DNS := Some 53\<rparr>\<rparr>))) = [''0.0.0.0''] \<and>
   DNSAddrsTCP (fst (NewConfig parseDuration_ex
     (ConfigFile_zero\<lparr>BindAddr := Some [], Ports := Ports_zero\<lparr>DNS := Some 53\<rparr>\<rparr>))) = ['':53''] \<and>
   BindAddr ConfigFile_zero = None \<and>
   BindAddrs (fst (NewConfig parseDuration_ex ConfigFile_zero)) = []"
proof -
  let ?f = "ConfigFile_zero\<lparr>BindAddr := Some [], Ports := Ports_zero\<lparr>DNS := Some 53\<rparr>\<rparr>"
  have b: "BindAddr ?f = Some []" and d: "DNS (Ports ?f) \<noteq> None"
    by (simp_all add: ConfigFile_zero_def Ports_zero_def)
  have p: "DNSPort (fst (NewConfig parseDuration_ex ?f)) = 53"
    by (simp add: NewConfig_def ConfigFile_zero_def Config_zero_def durationVal_def
        intVal_def Let_def Ports_zero_def appendDNSAddrs_def)
  have i: "Itoa 53 = ''53''"
    by (simp add: Itoa_def natDigits.simps)
  have z: "BindAddr ConfigFile_zero = None"
    by (simp add: ConfigFile_zero_def)
  from NewConfig_bind_addr_normalization [of ?f parseDuration_ex 53] b d p i
    NewConfig_bind_addr_normalization [of ConfigFile_zero parseDuration_ex 53] z
  show ?thesis by simp
qed

text \<open>
  C9 (as stated). A fragment with \<^verbatim>\<open>Ports.DNS\<close> set, no bind address and an interval that
  does not parse fails with the missing bind address error; with the bind address set in
  addition it still does not resolve: it fails with the error of the interval.
\<close>

theorem NewConfig_bind_addr_set_counterexample:
  "BindAddr (ConfigFile_zero\<lparr>CheckUpdateInterval := Some ''x'',
      Ports := Ports_zero\<lparr>DNS := Some 123\<rparr>\<rparr>) = None \<and>
   DNS (Ports (ConfigFile_zero\<lparr>CheckUpdateInterval := Some ''x'',
      Ports := Ports_zero\<lparr>DNS := Some 123\<rparr>\<rparr>)) = Some 123 \<and>
   NewConfig parseDuration_ex (ConfigFile_zero\<lparr>CheckUpdateInterval := Some ''x'',
      Ports := Ports_zero\<lparr>DNS := Some 123\<rparr>\<rparr>) = (Config_zero, Some ErrNoBindAddr) \<and>
   snd (NewConfig parseDuration_ex (ConfigFile_zero\<lparr>CheckUpdateInterval := Some ''x'',
      Ports := Ports_zero\<lparr>DNS := Some 123\<rparr>, BindAddr := Some ''1.2.3.4''\<rparr>))
     = Some (ErrParseDuration ''x'')"
  by (simp add: NewConfig_def ConfigFile_zero_def Config_zero_def boolVal_def durationVal_def
      stringVal_def intVal_def addrVal_def appendDNSAddrs_def parseDuration_ex_def Let_def
      Ports_zero_def)

text \<open>
  C9 (amended). For every fragment in which the bind address is absent and some field of
  \<^verbatim>\<open>Ports\<close> is present, \<^verbatim>\<open>NewConfig\<close> returns the zero \<^verbatim>\<open>Config\<close> and the error "no bind
  address specified"; the same fragment with the bind address set resolves without error
  provided its \<^verbatim>\<open>CheckUpdateInterval\<close> is absent or parses as a duration.
\<close>

theorem NewConfig_no_bind_addr:
  assumes "BindAddr f = None"
    and "DNS (Ports f) \<noteq> None \<or> HTTP (Ports f) \<noteq> None \<or> HTTPS (Ports f) \<noteq> None \<or>
         SerfLAN (Ports f) \<noteq> None \<or> SerfWAN (Ports f) \<noteq> None \<or> Server (Ports f) \<noteq> None \<or>
         DeprecatedRPC (Ports f) \<noteq> None"
  shows "NewConfig pd f = (Config_zero, Some ErrNoBindAddr) \<and>
         (CheckUpdateInterval f = None \<or> (\<exists>s d. CheckUpdateInterval f = Some s \<and> pd s = Inr d)
            \<longrightarrow> snd (NewConfig pd (f\<lparr>BindAddr := Some a\<rparr>)) = None)"
proof -
  from assms(2) have "Ports f \<noteq> Ports_zero"
    by (auto simp: Ports_zero_iff)
  with assms(1) have "NewConfig pd f = (Config_zero, Some ErrNoBindAddr)"
    by (rule NewConfig_no_bind_addr_error)
  moreover have "CheckUpdateInterval f = None \<or>
      (\<exists>s d. CheckUpdateInterval f = Some s \<and> pd s = Inr d)
      \<longrightarrow> snd (NewConfig pd (f\<lparr>BindAddr := Some a\<rparr>)) = None"
    using NewConfig_err [of "f\<lparr>BindAddr := Some a\<rparr>" pd]
    by (auto simp: durationVal_def)
  ultimately show ?thesis by blast
qed

theorem NewConfig_no_bind_addr_witness:
  "NewConfig parseDuration_ex (ConfigFile_zero\<lparr>CheckUpdateInterval := Some ''5m'',
      Ports := Ports_zero\<lparr>DNS := Some 123\<rparr>\<rparr>) = (Config_zero, Some ErrNoBindAddr) \<and>
   snd (NewConfig parseDuration_ex (ConfigFile_zero\<lparr>CheckUpdateInterval := Some ''5m'',
      Ports := Ports_zero\<lparr>DNS := Some 123\<rparr>, BindAddr := Some ''0.0.0.0''\<rparr>)) = None"
proof -
  let ?f = "ConfigFile_zero\<lparr>CheckUpdateInterval := Some ''5m'',
      Ports := Ports_zero\<lparr>DNS := Some 123\<rparr>\<rparr>"
  have b: "BindAddr ?f = None" and d: "DNS (Ports ?f) \<noteq> None"
    and c: "CheckUpdateInterval ?f = Some ''5m''"
    by (simp_all add: ConfigFile_zero_def Ports_zero_def)
  have p: "parseDuration_ex ''5m'' = Inr 300000000000"
    by (simp add: parseDuration_ex_def)
  from NewConfig_no_bind_addr [of ?f parseDuration_ex "''0.0.0.0''"] b d c p
  show ?thesis by simp
qed

text \<open>
  C10. When \<^verbatim>\<open>NewConfig\<close> succeeds, \<^verbatim>\<open>BindAddrs\<close> has exactly one element if the bind
  address of the fragment is present and none if it is absent, and \<^verbatim>\<open>DNSAddrsTCP\<close> and
  \<^verbatim>\<open>DNSAddrsUDP\<close> have at most one element each.
\<close>

theorem NewConfig_at_most_one_bind_addr:
  assumes "snd (NewConfig pd f) = None"
  shows "length (BindAddrs (fst (NewConfig pd f))) \<le> 1 \<and>
         (BindAddr f \<noteq> None \<longrightarrow> length (BindAddrs (fst (NewConfig pd f))) = 1) \<and>
         (BindAddr f = None \<longrightarrow> BindAddrs (fst (NewConfig pd f)) = []) \<and>
         length (DNSAddrsTCP (fst (NewConfig pd f))) \<le> 1 \<and>
         length (DNSAddrsUDP (fst (NewConfig pd f))) \<le> 1"
  using NewConfig_DNSAddrs_length [of pd f]
  by (auto simp: NewConfig_BindAddrs split: option.splits)

theorem NewConfig_at_most_one_bind_addr_witness:
  "snd (NewConfig parseDuration_ex (ConfigFile_zero\<lparr>BindAddr := Some ''1.2.3.4'',
      Ports := Ports_zero\<lparr>DNS := Some 123\<rparr>\<rparr>)) = None \<and>
   length (BindAddrs (fst (NewConfig parseDuration_ex (ConfigFile_zero\<lparr>BindAddr := Some ''1.2.3.4'',
      Ports := Ports_zero\<lparr>DNS := Some 123\<rparr>\<rparr>)))) = 1 \<and>
   length (DNSAddrsTCP (fst (NewConfig parseDuration_ex (ConfigFile_zero\<lparr>BindAddr := Some ''1.2.3.4'',
      Ports := Ports_zero\<lparr>DNS := Some 123\<rparr>\<rparr>)))) \<le> 1 \<and>
   length (DNSAddrsUDP (fst (NewConfig parseDuration_ex (ConfigFile_zero\<lparr>BindAddr := Some ''1.2.3.4'',
      Ports := Ports_zero\<lparr>DNS := Some 123\<rparr>\<rparr>)))) \<le> 1"
proof -
  let ?f = "ConfigFile_zero\<lparr>BindAddr := Some ''1.2.3.4'', Ports := Ports_zero\<lparr>DNS := Some 123\<rparr>\<rparr>"
  have ok: "snd (NewConfig parseDuration_ex ?f) = None"
    by (simp add: NewConfig_def ConfigFile_zero_def Config_zero_def durationVal_def
        Let_def Ports_zero_def)
  have b: "BindAddr ?f \<noteq> None"
    by (simp add: ConfigFile_zero_def)
  from NewConfig_at_most_one_bind_addr [OF ok] b ok show ?thesis by simp
qed


section \<open>Properties of Merge\<close>

lemma Merge_snoc: "Merge (fs @ [b]) = mergeConfigFile (Merge fs) b"
  by (simp add: Merge_def)

lemma Merge_Nil: "Merge [] = ConfigFile_zero"
  by (simp add: Merge_def)

lemma lastPresent_snoc:
  "lastPresent (xs @ [x]) = (case x of Some v \<Rightarrow> Some v | None \<Rightarrow> lastPresent xs)"
  by (induction xs) (simp_all split: option.splits)

lemma mergeList_append: "mergeList a b = a @ b"
  by (simp add: mergeList_def)

lemma stringFields_step:
  "\<forall>g\<in>set stringFields. g (mergeConfigFile a b) = mergeScalar (g a) (g b)"
  by (simp add: stringFields_def mergeConfigFile_def mergeRetryJoinAzure_def
      mergeRetryJoinEC2_def mergeRetryJoinGCE_def)

lemma stringFields_zero: "\<forall>g\<in>set stringFields. g ConfigFile_zero = None"
  by (simp add: stringFields_def ConfigFile_zero_def RetryJoinAzure_zero_def
      RetryJoinEC2_zero_def RetryJoinGCE_zero_def)

lemma boolFields_step:
  "\<forall>g\<in>set boolFields. g (mergeConfigFile a b) = mergeScalar (g a) (g b)"
  by (simp add: boolFields_def mergeConfigFile_def)

lemma boolFields_zero: "\<forall>g\<in>set boolFields. g ConfigFile_zero = None"
  by (simp add: boolFields_def ConfigFile_zero_def)

lemma intFields_step:
  "\<forall>g\<in>set intFields. g (mergeConfigFile a b) = mergeScalar (g a) (g b)"
  by (simp add: intFields_def mergeConfigFile_def mergePorts_def)

lemma intFields_zero: "\<forall>g\<in>set intFields. g ConfigFile_zero = None"
  by (simp add: intFields_def ConfigFile_zero_def Ports_zero_def)

lemma listFields_step:
  "\<forall>g\<in>set listFields. g (mergeConfigFile a b) = mergeList (g a) (g b)"
  by (simp add: listFields_def mergeConfigFile_def)

lemma listFields_zero: "\<forall>g\<in>set listFields. g ConfigFile_zero = []"
  by (simp add: listFields_def ConfigFile_zero_def)

lemma mapFields_step:
  "\<forall>g\<in>set mapFields. g (mergeConfigFile a b) = mergeMap (g a) (g b)"
  by (simp add: mapFields_def mergeConfigFile_def)

text \<open>A field that obeys the scalar rule holds, after the fold, the last present value.\<close>

lemma Merge_scalar_field:
  assumes step: "\<And>a b. g (mergeConfigFile a b) = mergeScalar (g a) (g b)"
    and zero: "g ConfigFile_zero = None"
  shows "g (Merge fs) = lastPresent (map g fs)"
proof (induction fs rule: rev_induct)
  case Nil
  show ?case by (simp add: Merge_Nil zero)
next
  case (snoc b fs)
  then show ?case
    by (simp add: Merge_snoc step lastPresent_snoc mergeScalar_def)
qed

lemma Merge_scalar_field_snoc:
  assumes step: "\<And>a b. g (mergeConfigFile a b) = mergeScalar (g a) (g b)"
  shows "g (Merge (fs @ [b])) = (case g b of Some v \<Rightarrow> Some v | None \<Rightarrow> g (Merge fs))"
  by (simp add: Merge_snoc step mergeScalar_def)

lemma Merge_scalar_field_pair:
  assumes step: "\<And>a b. g (mergeConfigFile a b) = mergeScalar (g a) (g b)"
    and "g B \<noteq> None"
  shows "g (Merge [A, B]) = g B"
  using Merge_scalar_field_snoc [of g "[A]" B, OF step] assms(2) by auto

text \<open>A field that obeys the list rule holds, after the fold, the concatenation.\<close>

lemma Merge_list_field:
  assumes step: "\<And>a b. g (mergeConfigFile a b) = mergeList (g a) (g b)"
    and zero: "g ConfigFile_zero = []"
  shows "g (Merge fs) = concat (map g fs)"
proof (induction fs rule: rev_induct)
  case Nil
  show ?case by (simp add: Merge_Nil zero)
next
  case (snoc b fs)
  then show ?case
    by (simp add: Merge_snoc step mergeList_append)
qed

text \<open>
  C4. Scalar merge is last-writer-wins. For every sequence of fragments and every scalar
  field (optional string, bool, int or duration, at the top level or in a nested group):
  appending a fragment in which the field is present makes the merged field that value,
  whatever the earlier fragments set; appending one in which it is absent leaves the
  merged field unchanged; the merged field is the value of the last fragment that has it
  present; and for [A, B] with the field present in both, the merged field is that of B.
\<close>

theorem Merge_scalar_last_writer_wins:
  "(\<forall>g\<in>set stringFields.
      g (Merge (fs @ [b])) = (case g b of Some v \<Rightarrow> Some v | None \<Rightarrow> g (Merge fs)) \<and>
      g (Merge fs) = lastPresent (map g fs) \<and>
      (g A \<noteq> None \<and> g B \<noteq> None \<longrightarrow> g (Merge [A, B]) = g B)) \<and>
   (\<forall>g\<in>set boolFields.
      g (Merge (fs @ [b])) = (case g b of Some v \<Rightarrow> Some v | None \<Rightarrow> g (Merge fs)) \<and>
      g (Merge fs) = lastPresent (map g fs) \<and>
      (g A \<noteq> None \<and> g B \<noteq> None \<longrightarrow> g (Merge [A, B]) = g B)) \<and>
   (\<forall>g\<in>set intFields.
      g (Merge (fs @ [b])) = (case g b of Some v \<Rightarrow> Some v | None \<Rightarrow> g (Merge fs)) \<and>
      g (Merge fs) = lastPresent (map g fs) \<and>
      (g A \<noteq> None \<and> g B \<noteq> None \<longrightarrow> g (Merge [A, B]) = g B))"
proof (intro conjI ballI impI)
  fix g assume g: "g \<in> set stringFields"
  then have step: "\<And>a b. g (mergeConfigFile a b) = mergeScalar (g a) (g b)"
    and zero: "g ConfigFile_zero = None"
    using stringFields_step stringFields_zero by blast+
  show "g (Merge (fs @ [b])) = (case g b of Some v \<Rightarrow> Some v | None \<Rightarrow> g (Merge fs))"
    using Merge_scalar_field_snoc [of g fs b] step by simp
  show "g (Merge fs) = lastPresent (map g fs)"
    using Merge_scalar_field [of g fs] step zero by simp
  show "g (Merge [A, B]) = g B" if "g A \<noteq> None \<and> g B \<noteq> None"
    using that Merge_scalar_field_pair [of g B A] step by simp
next
  fix g assume g: "g \<in> set boolFields"
  then have step: "\<And>a b. g (mergeConfigFile a b) = mergeScalar (g a) (g b)"
    and zero: "g ConfigFile_zero = None"
    using boolFields_step boolFields_zero by blast+
  show "g (Merge (fs @ [b])) = (case g b of Some v \<Rightarrow> Some v | None \<Rightarrow> g (Merge fs))"
    using Merge_scalar_field_snoc [of g fs b] step by simp
  show "g (Merge fs) = lastPresent (map g fs)"
    using Merge_scalar_field [of g fs] step zero by simp
  show "g (Merge [A, B]) = g B" if "g A \<noteq> None \<and> g B \<noteq> None"
    using that Merge_scalar_field_pair [of g B A] step by simp
next
  fix g assume g: "g \<in> set intFields"
  then have step: "\<And>a b. g (mergeConfigFile a b) = mergeScalar (g a) (g b)"
    and zero: "g ConfigFile_zero = None"
    using intFields_step intFields_zero by blast+
  show "g (Merge (fs @ [b])) = (case g b of Some v \<Rightarrow> Some v | None \<Rightarrow> g (Merge fs))"
    using Merge_scalar_field_snoc [of g fs b] step by simp
  show "g (Merge fs) = lastPresent (map g fs)"
    using Merge_scalar_field [of g fs] step zero by simp
  show "g (Merge [A, B]) = g B" if "g A \<noteq> None \<and> g B \<noteq> None"
    using that Merge_scalar_field_pair [of g B A] step by simp
qed

theorem Merge_scalar_last_writer_wins_witness:
  "AdvertiseAddrLAN \<in> set stringFields \<and>
   AdvertiseAddrLAN (ConfigFile_zero\<lparr>AdvertiseAddrLAN := Some ''a''\<rparr>) \<noteq> None \<and>
   AdvertiseAddrLAN (ConfigFile_zero\<lparr>AdvertiseAddrLAN := Some ''b''\<rparr>) \<noteq> None \<and>
   AdvertiseAddrLAN (Merge [ConfigFile_zero\<lparr>AdvertiseAddrLAN := Some ''a''\<rparr>,
      ConfigFile_zero\<lparr>AdvertiseAddrLAN := Some ''b''\<rparr>]) = Some ''b'' \<and>
   ServerMode \<in> set boolFields \<and>
   ServerMode (Merge [ConfigFile_zero\<lparr>ServerMode := Some False\<rparr>,
      ConfigFile_zero\<lparr>ServerMode := Some True\<rparr>]) = Some True \<and>
   RaftProtocol \<in> set intFields \<and>
   RaftProtocol (Merge ([ConfigFile_zero\<lparr>RaftProtocol := Some 1\<rparr>,
      ConfigFile_zero\<lparr>RaftProtocol := Some 2\<rparr>] @ [ConfigFile_zero])) = Some 2"
proof -
  let ?A = "ConfigFile_zero\<lparr>AdvertiseAddrLAN := Some ''a''\<rparr>"
  let ?B = "ConfigFile_zero\<lparr>AdvertiseAddrLAN := Some ''b''\<rparr>"
  let ?S = "ConfigFile_zero\<lparr>ServerMode := Some False\<rparr>"
  let ?T = "ConfigFile_zero\<lparr>ServerMode := Some True\<rparr>"
  let ?R1 = "ConfigFile_zero\<lparr>RaftProtocol := Some 1\<rparr>"
  let ?R2 = "ConfigFile_zero\<lparr>RaftProtocol := Some 2\<rparr>"
  have m: "AdvertiseAddrLAN \<in> set stringFields" "ServerMode \<in> set boolFields"
    "RaftProtocol \<in> set intFields"
    by (simp_all add: stringFields_def boolFields_def intFields_def)
  have v: "AdvertiseAddrLAN ?A = Some ''a''" "AdvertiseAddrLAN ?B = Some ''b''"
    "ServerMode ?S = Some False" "ServerMode ?T = Some True"
    "RaftProtocol ?R1 = Some 1" "RaftProtocol ?R2 = Some 2" "RaftProtocol ConfigFile_zero = None"
    by (simp_all add: ConfigFile_zero_def)
  have a: "AdvertiseAddrLAN (Merge [?A, ?B]) = Some ''b''"
    using Merge_scalar_last_writer_wins [of "[]" ?A ?A ?B, THEN conjunct1, THEN bspec, OF m(1)] v
    by simp
  have s: "ServerMode (Merge [?S, ?T]) = Some True"
    using Merge_scalar_last_writer_wins [of "[]" ?S ?S ?T, THEN conjunct2, THEN conjunct1,
        THEN bspec, OF m(2)] v
    by simp
  have r: "RaftProtocol (Merge ([?R1, ?R2] @ [ConfigFile_zero])) = Some 2"
    using Merge_scalar_last_writer_wins [of "[?R1, ?R2]" ConfigFile_zero ?R1 ?R2,
        THEN conjunct2, THEN conjunct2, THEN bspec, OF m(3)] v
    by simp
  from m v a s r show ?thesis by simp
qed

text \<open>
  C5. List merge is concatenation in fragment order, and lists only grow. For every
  sequence of fragments and every list field, the merged list is the concatenation of the
  fragments' lists in the order of the fragments; merging further fragments after a
  sequence only appends to what the sequence gave; and merging a fragment with join
  addresses [a] and one with [b] gives [a, b].
\<close>

theorem Merge_list_concat:
  "(\<forall>g\<in>set listFields.
      g (Merge fs) = concat (map g fs) \<and>
      g (Merge (fs @ gs)) = g (Merge fs) @ concat (map g gs)) \<and>
   JoinAddrsLAN (Merge [ConfigFile_zero\<lparr>JoinAddrsLAN := [''a'']\<rparr>,
      ConfigFile_zero\<lparr>JoinAddrsLAN := [''b'']\<rparr>]) = [''a'', ''b'']"
proof (intro conjI ballI)
  fix g assume g: "g \<in> set listFields"
  then have step: "\<And>a b. g (mergeConfigFile a b) = mergeList (g a) (g b)"
    and zero: "g ConfigFile_zero = []"
    using listFields_step listFields_zero by blast+
  have c: "g (Merge hs) = concat (map g hs)" for hs
    using Merge_list_field [of g hs] step zero by simp
  show "g (Merge fs) = concat (map g fs)"
    by (rule c)
  show "g (Merge (fs @ gs)) = g (Merge fs) @ concat (map g gs)"
    by (simp add: c)
next
  have step: "\<And>a b. JoinAddrsLAN (mergeConfigFile a b) = mergeList (JoinAddrsLAN a) (JoinAddrsLAN b)"
    by (simp add: mergeConfigFile_def)
  have zero: "JoinAddrsLAN ConfigFile_zero = []"
    by (simp add: ConfigFile_zero_def)
  show "JoinAddrsLAN (Merge [ConfigFile_zero\<lparr>JoinAddrsLAN := [''a'']\<rparr>,
      ConfigFile_zero\<lparr>JoinAddrsLAN := [''b'']\<rparr>]) = [''a'', ''b'']"
    using Merge_list_field [of JoinAddrsLAN "[ConfigFile_zero\<lparr>JoinAddrsLAN := [''a'']\<rparr>,
      ConfigFile_zero\<lparr>JoinAddrsLAN := [''b'']\<rparr>]"] step zero by simp
qed

theorem Merge_list_concat_witness:
  "RetryJoinWAN \<in> set listFields \<and>
   RetryJoinWAN (Merge ([ConfigFile_zero\<lparr>RetryJoinWAN := [''a'', ''b'']\<rparr>, ConfigFile_zero] @
      [ConfigFile_zero\<lparr>RetryJoinWAN := [''c'']\<rparr>])) = [''a'', ''b'', ''c'']"
proof -
  let ?A = "ConfigFile_zero\<lparr>RetryJoinWAN := [''a'', ''b'']\<rparr>"
  let ?C = "ConfigFile_zero\<lparr>RetryJoinWAN := [''c'']\<rparr>"
  have m: "RetryJoinWAN \<in> set listFields"
    by (simp add: listFields_def)
  have v: "RetryJoinWAN ?A = [''a'', ''b'']" "RetryJoinWAN ?C = [''c'']"
    "RetryJoinWAN ConfigFile_zero = []"
    by (simp_all add: ConfigFile_zero_def)
  note t = Merge_list_concat [of "[?A, ConfigFile_zero]" "[?C]", THEN conjunct1, THEN bspec, OF m]
  from t v m show ?thesis by simp
qed

text \<open>
  C6. Map merge replaces the whole map. For every sequence of fragments and every map
  field, appending a fragment with a non-empty map makes the merged map exactly that
  map, and appending one with an empty map leaves the merged map unchanged; merging a
  fragment with node metadata {a: b} and one with {c: d} gives exactly {c: d}, in which
  the key a is not defined.
\<close>

theorem Merge_map_replace:
  "(\<forall>g\<in>set mapFields.
      g (Merge (fs @ [b])) = (if g b \<noteq> Map.empty then g b else g (Merge fs))) \<and>
   NodeMeta (Merge [ConfigFile_zero\<lparr>NodeMeta := [''a'' \<mapsto> ''b'']\<rparr>,
      ConfigFile_zero\<lparr>NodeMeta := [''c'' \<mapsto> ''d'']\<rparr>]) = [''c'' \<mapsto> ''d''] \<and>
   NodeMeta (Merge [ConfigFile_zero\<lparr>NodeMeta := [''a'' \<mapsto> ''b'']\<rparr>,
      ConfigFile_zero\<lparr>NodeMeta := [''c'' \<mapsto> ''d'']\<rparr>]) ''a'' = None"
proof -
  have step: "g (Merge (fs @ [b])) = (if g b \<noteq> Map.empty then g b else g (Merge fs))"
    if "g \<in> set mapFields" for g fs b
    using that mapFields_step by (simp add: Merge_snoc mergeMap_def)
  have n: "NodeMeta \<in> set mapFields"
    by (simp add: mapFields_def)
  let ?A = "ConfigFile_zero\<lparr>NodeMeta := [''a'' \<mapsto> ''b'']\<rparr>"
  let ?B = "ConfigFile_zero\<lparr>NodeMeta := [''c'' \<mapsto> ''d'']\<rparr>"
  have "NodeMeta (Merge ([?A] @ [?B])) = [''c'' \<mapsto> ''d'']"
    by (simp only: step [OF n]) simp
  then have ex: "NodeMeta (Merge [?A, ?B]) = [''c'' \<mapsto> ''d'']"
    by simp
  show ?thesis
    using step ex by simp
qed

theorem Merge_map_replace_witness:
  "NodeMeta \<in> set mapFields \<and>
   NodeMeta (Merge ([ConfigFile_zero\<lparr>NodeMeta := [''a'' \<mapsto> ''b'']\<rparr>] @
      [ConfigFile_zero\<lparr>NodeMeta := [''c'' \<mapsto> ''d'']\<rparr>])) = [''c'' \<mapsto> ''d'']"
proof -
  let ?A = "ConfigFile_zero\<lparr>NodeMeta := [''a'' \<mapsto> ''b'']\<rparr>"
  let ?B = "ConfigFile_zero\<lparr>NodeMeta := [''c'' \<mapsto> ''d'']\<rparr>"
  have m: "NodeMeta \<in> set mapFields"
    by (simp add: mapFields_def)
  have v: "NodeMeta ?B = [''c'' \<mapsto> ''d'']"
    by simp
  note t = Merge_map_replace [of "[?A]" ?B, THEN conjunct1, THEN bspec, OF m]
  from t v m show ?thesis by simp
qed

text \<open>The model gives what \<^verbatim>\<open>TestMerge\<close> expects on the fragments of the test.\<close>

lemma Merge_TestMerge:
  "Merge [ConfigFile_zero\<lparr>AdvertiseAddrLAN := Some ''a''\<rparr>,
          ConfigFile_zero\<lparr>AdvertiseAddrLAN := Some ''b''\<rparr>,
          ConfigFile_zero\<lparr>RaftProtocol := Some 1\<rparr>,
          ConfigFile_zero\<lparr>RaftProtocol := Some 2\<rparr>,
          ConfigFile_zero\<lparr>ServerMode := Some False\<rparr>,
          ConfigFile_zero\<lparr>ServerMode := Some True\<rparr>,
          ConfigFile_zero\<lparr>JoinAddrsLAN := [''a'']\<rparr>,
          ConfigFile_zero\<lparr>JoinAddrsLAN := [''b'']\<rparr>,
          ConfigFile_zero\<lparr>NodeMeta := [''a'' \<mapsto> ''b'']\<rparr>,
          ConfigFile_zero\<lparr>NodeMeta := [''c'' \<mapsto> ''d'']\<rparr>,
          ConfigFile_zero\<lparr>Ports := Ports_zero\<lparr>DNS := Some 1\<rparr>\<rparr>,
          ConfigFile_zero\<lparr>Ports := Ports_zero\<lparr>DNS := Some 2, HTTP := Some 3\<rparr>\<rparr>]
   = ConfigFile_zero\<lparr>AdvertiseAddrLAN := Some ''b'', RaftProtocol := Some 2,
       ServerMode := Some True, JoinAddrsLAN := [''a'', ''b''],
       NodeMeta := [''c'' \<mapsto> ''d''],
       Ports := Ports_zero\<lparr>DNS := Some 2, HTTP := Some 3\<rparr>\<rparr>"
  by (simp add: Merge_def mergeConfigFile_def mergeScalar_def mergeList_def mergeMap_def
      mergePorts_def mergeRetryJoinAzure_def mergeRetryJoinEC2_def mergeRetryJoinGCE_def
      ConfigFile_zero_def Ports_zero_def RetryJoinAzure_zero_def RetryJoinEC2_zero_def
      RetryJoinGCE_zero_def)


section \<open>Properties of ParseFlags\<close>

subsection \<open>The parsing loop\<close>

lemma Parse_Seen:
  "parseOne isb st formal f args = Seen f' args' \<Longrightarrow>
     Parse isb st formal f args = Parse isb st formal f' args'"
  by (subst Parse.simps) simp

lemma Parse_NotSeen:
  "parseOne isb st formal f args = NotSeen args' \<Longrightarrow> Parse isb st formal f args = Inr (f, args')"
  by (subst Parse.simps) simp

lemma Parse_Failed:
  "parseOne isb st formal f args = Failed e \<Longrightarrow> Parse isb st formal f args = Inl e"
  by (subst Parse.simps) simp

lemma Parse_Nil: "Parse isb st formal f [] = Inr (f, [])"
  by (rule Parse_NotSeen) (simp add: parseOne_def)

text \<open>A flag that \<^verbatim>\<open>parseOne\<close> has seen is seen in the same way with more arguments behind.\<close>

lemma applyFlag_append:
  assumes "applyFlag isb st formal f name hasValue value rest = Seen f' rest'"
  shows "applyFlag isb st formal f name hasValue value (rest @ args) = Seen f' (rest' @ args)"
proof (cases "map_of formal name")
  case None
  with assms show ?thesis
    by (simp add: applyFlag_def split: if_splits)
next
  case (Some flag)
  show ?thesis
  proof (cases "isb flag")
    case True
    with assms Some show ?thesis
      by (cases hasValue) (simp_all add: applyFlag_def split: sum.splits)
  next
    case False
    show ?thesis
    proof (cases "hasValue \<or> rest = []")
      case True
      with assms Some False show ?thesis
        by (cases hasValue) (simp_all add: applyFlag_def split: sum.splits)
    next
      case no: False
      then obtain x xs where "rest = x # xs"
        by (cases rest) auto
      with assms Some False no show ?thesis
        by (simp add: applyFlag_def split: sum.splits)
    qed
  qed
qed

text \<open>
  What \<^verbatim>\<open>parseOne\<close> does with an argument depends on the arguments behind it only
  through \<open>applyFlag\<close>.
\<close>

lemma parseOne_cases:
  obtains
    (positional) "\<And>f rest. parseOne isb st formal f (s # rest) = NotSeen (s # rest)"
  | (terminator) "\<And>f rest. parseOne isb st formal f (s # rest) = NotSeen rest"
  | (malformed) "\<And>f rest. parseOne isb st formal f (s # rest) = Failed (ErrBadFlagSyntax s)"
  | (flag) n hv v where
      "\<And>f rest. parseOne isb st formal f (s # rest) = applyFlag isb st formal f n hv v rest"
proof -
  consider (a) "length s < 2" | (b) "\<not> length s < 2" "hd s \<noteq> CHR ''-''"
    | (c) "\<not> length s < 2" "hd s = CHR ''-''" "s ! 1 = CHR ''-''" "length s = 2"
    | (d) "\<not> length s < 2" "hd s = CHR ''-''" "s ! 1 = CHR ''-''" "length s \<noteq> 2"
    | (e) "\<not> length s < 2" "hd s = CHR ''-''" "s ! 1 \<noteq> CHR ''-''"
    by blast
  then show thesis
  proof cases
    case a
    then have "parseOne isb st formal f (s # rest) = NotSeen (s # rest)" for f rest
      by (simp add: parseOne_def)
    then show thesis by (rule positional)
  next
    case b
    then have "parseOne isb st formal f (s # rest) = NotSeen (s # rest)" for f rest
      by (simp add: parseOne_def)
    then show thesis by (rule positional)
  next
    case c
    then have "parseOne isb st formal f (s # rest) = NotSeen rest" for f rest
      by (simp add: parseOne_def)
    then show thesis by (rule terminator)
  next
    case d
    show thesis
    proof (cases "drop 2 s = [] \<or> hd (drop 2 s) = CHR ''-'' \<or> hd (drop 2 s) = CHR ''=''")
      case True
      with d have "parseOne isb st formal f (s # rest) = Failed (ErrBadFlagSyntax s)" for f rest
        by (simp add: parseOne_def Let_def)
      then show thesis by (rule malformed)
    next
      case False
      obtain n hv v where "splitEquals (drop 2 s) = (n, hv, v)"
        by (cases "splitEquals (drop 2 s)") auto
      with d False
      have "parseOne isb st formal f (s # rest) = applyFlag isb st formal f n hv v rest" for f rest
        by (simp add: parseOne_def Let_def)
      then show thesis by (rule flag)
    qed
  next
    case e
    show thesis
    proof (cases "drop 1 s = [] \<or> hd (drop 1 s) = CHR ''-'' \<or> hd (drop 1 s) = CHR ''=''")
      case True
      with e have "parseOne isb st formal f (s # rest) = Failed (ErrBadFlagSyntax s)" for f rest
        by (simp add: parseOne_def Let_def)
      then show thesis by (rule malformed)
    next
      case False
      obtain n hv v where "splitEquals (drop 1 s) = (n, hv, v)"
        by (cases "splitEquals (drop 1 s)") auto
      with e False
      have "parseOne isb st formal f (s # rest) = applyFlag isb st formal f n hv v rest" for f rest
        by (simp add: parseOne_def Let_def)
      then show thesis by (rule flag)
    qed
  qed
qed

lemma parseOne_append:
  assumes "parseOne isb st formal f pre = Seen f' pre'"
  shows "parseOne isb st formal f (pre @ args) = Seen f' (pre' @ args)"
proof (cases pre)
  case Nil
  with assms show ?thesis
    by (simp add: parseOne_def)
next
  case (Cons s rest)
  show ?thesis
  proof (cases rule: parseOne_cases [of isb st formal s])
    case positional
    with assms Cons show ?thesis by simp
  next
    case terminator
    with assms Cons show ?thesis by simp
  next
    case malformed
    with assms Cons show ?thesis by simp
  next
    case (flag n hv v)
    with assms Cons have "applyFlag isb st formal f n hv v rest = Seen f' pre'"
      by simp
    then have "applyFlag isb st formal f n hv v (rest @ args) = Seen f' (pre' @ args)"
      by (rule applyFlag_append)
    with Cons flag show ?thesis
      by simp
  qed
qed

lemma Parse_consumed:
  "consumed pd f pre = Some f' \<Longrightarrow> Parse IsBoolFlag (Set pd) AddFlags f (pre @ args) = Parse IsBoolFlag (Set pd) AddFlags f' args"
proof (induction pd f pre rule: consumed.induct)
  case (1 pd f pre)
  show ?case
  proof (cases "pre = []")
    case True
    with "1.prems" show ?thesis
      by (simp add: consumed.simps)
  next
    case False
    with "1.prems" obtain f1 pre1 where
      one: "parseOne IsBoolFlag (Set pd) AddFlags f pre = Seen f1 pre1" and rest: "consumed pd f1 pre1 = Some f'"
      by (subst (asm) consumed.simps) (auto split: parseOneResult.splits)
    from "1.IH" [OF False one rest]
    have "Parse IsBoolFlag (Set pd) AddFlags f1 (pre1 @ args) = Parse IsBoolFlag (Set pd) AddFlags f' args" .
    with Parse_Seen [OF parseOne_append [OF one, of args]] show ?thesis
      by simp
  qed
qed

lemma consumed_append:
  "consumed pd f pre = Some f' \<Longrightarrow> consumed pd f (pre @ args) = consumed pd f' args"
proof (induction pd f pre rule: consumed.induct)
  case (1 pd f pre)
  show ?case
  proof (cases "pre = []")
    case True
    with "1.prems" show ?thesis
      by (simp add: consumed.simps)
  next
    case False
    with "1.prems" obtain f1 pre1 where
      one: "parseOne IsBoolFlag (Set pd) AddFlags f pre = Seen f1 pre1" and rest: "consumed pd f1 pre1 = Some f'"
      by (subst (asm) consumed.simps) (auto split: parseOneResult.splits)
    from "1.IH" [OF False one rest]
    have "consumed pd f1 (pre1 @ args) = consumed pd f' args" .
    moreover have "consumed pd f (pre @ args) = consumed pd f1 (pre1 @ args)"
      using False parseOne_append [OF one, of args]
      by (subst consumed.simps) simp
    ultimately show ?thesis
      by simp
  qed
qed

lemma ParseFlags_consumed:
  "consumed pd Flags_zero pre = Some f \<Longrightarrow>
     ParseFlags pd (pre @ args) =
       (case Parse IsBoolFlag (Set pd) AddFlags f args of Inl err \<Rightarrow> (Flags_zero, Some err)
        | Inr (f', rest) \<Rightarrow> (f', None))"
  by (simp add: ParseFlags_def Parse_consumed)

lemma ParseFlags_consumed_Failed:
  "consumed pd Flags_zero pre = Some f \<Longrightarrow> parseOne IsBoolFlag (Set pd) AddFlags f args = Failed e \<Longrightarrow>
     ParseFlags pd (pre @ args) = (Flags_zero, Some e)"
  by (simp add: ParseFlags_consumed Parse_Failed)

lemma ParseFlags_consumed_NotSeen:
  "consumed pd Flags_zero pre = Some f \<Longrightarrow> parseOne IsBoolFlag (Set pd) AddFlags f args = NotSeen args' \<Longrightarrow>
     ParseFlags pd (pre @ args) = (f, None)"
  by (simp add: ParseFlags_consumed Parse_NotSeen)

lemma ParseFlags_consumed_all:
  "consumed pd Flags_zero pre = Some f \<Longrightarrow> ParseFlags pd pre = (f, None)"
  using ParseFlags_consumed [of pd pre f "[]"] by (simp add: Parse_Nil)

lemma consumed_Seen:
  "parseOne IsBoolFlag (Set pd) AddFlags f args = Seen f' args' \<Longrightarrow> consumed pd f args = consumed pd f' args'"
  by (subst consumed.simps) (auto simp: parseOne_def)

lemma consumed_Nil: "consumed pd f [] = Some f"
  by (simp add: consumed.simps)

subsection \<open>One flag\<close>

lemma findEquals_None: "CHR ''='' \<notin> set n \<Longrightarrow> findEquals n = None"
  by (induction n) auto

lemma findEquals_Some:
  "CHR ''='' \<notin> set n \<Longrightarrow> findEquals (n @ CHR ''='' # v) = Some (n, v)"
  by (induction n) auto

lemma splitEquals_plain:
  "CHR ''='' \<notin> set name \<Longrightarrow> splitEquals name = (name, False, [])"
  by (cases name) (simp_all add: splitEquals_def findEquals_None)

lemma splitEquals_value:
  "name \<noteq> [] \<Longrightarrow> CHR ''='' \<notin> set name \<Longrightarrow>
     splitEquals (name @ CHR ''='' # v) = (name, True, v)"
  by (cases name) (simp_all add: splitEquals_def findEquals_Some)

lemma splitColon_None: "CHR '':'' \<notin> set s \<Longrightarrow> splitColon s = None"
  by (induction s) auto

lemma splitColon_Some:
  "CHR '':'' \<notin> set k \<Longrightarrow> splitColon (k @ CHR '':'' # v) = Some (k, v)"
  by (induction k) auto

text \<open>The names of \<^verbatim>\<open>AddFlags\<close> are distinct and are plain flag names.\<close>

lemma AddFlags_distinct: "distinct (map fst AddFlags)"
  by (simp add: AddFlags_def)

lemma AddFlags_names:
  "\<forall>name\<in>set (map fst AddFlags).
     name \<noteq> [] \<and> hd name \<noteq> CHR ''-'' \<and> hd name \<noteq> CHR ''='' \<and> CHR ''='' \<notin> set name"
  by (simp add: AddFlags_def)

lemma AddFlags_name:
  assumes "map_of AddFlags name = Some v"
  shows "name \<noteq> []" and "hd name \<noteq> CHR ''-''" and "hd name \<noteq> CHR ''=''"
    and "CHR ''='' \<notin> set name"
proof -
  from assms have "(name, v) \<in> set AddFlags"
    by (rule map_of_SomeD)
  then have "name \<in> set (map fst AddFlags)"
    by force
  with AddFlags_names show "name \<noteq> []" and "hd name \<noteq> CHR ''-''" and "hd name \<noteq> CHR ''=''"
    and "CHR ''='' \<notin> set name"
    by blast+
qed

lemma parseOne_positional:
  "length s < 2 \<or> hd s \<noteq> CHR ''-'' \<Longrightarrow> parseOne isb st formal f (s # rest) = NotSeen (s # rest)"
  by (simp add: parseOne_def)

lemma parseOne_single_dash:
  assumes "name \<noteq> []" and "hd name \<noteq> CHR ''-''" and "hd name \<noteq> CHR ''=''"
  shows "parseOne isb st formal f ((CHR ''-'' # name) # rest) =
           (case splitEquals name of (n, hasValue, value) \<Rightarrow>
              applyFlag isb st formal f n hasValue value rest)"
proof -
  from assms obtain c cs where name: "name = c # cs" and c: "c \<noteq> CHR ''-''" "c \<noteq> CHR ''=''"
    by (cases name) auto
  show ?thesis
    unfolding parseOne_def name
    by (simp add: c Let_def)
qed

lemma parseOne_name:
  assumes "name \<noteq> []" and "hd name \<noteq> CHR ''-''" and "hd name \<noteq> CHR ''=''"
    and "CHR ''='' \<notin> set name"
  shows "parseOne isb st formal f ((CHR ''-'' # name) # rest) =
           applyFlag isb st formal f name False [] rest"
  by (simp add: parseOne_single_dash [OF assms(1-3)] splitEquals_plain [OF assms(4)])

lemma parseOne_name_value:
  assumes "name \<noteq> []" and "hd name \<noteq> CHR ''-''" and "hd name \<noteq> CHR ''=''"
    and "CHR ''='' \<notin> set name"
  shows "parseOne isb st formal f ((CHR ''-'' # name @ CHR ''='' # v) # rest) =
           applyFlag isb st formal f name True v rest"
proof -
  have "parseOne isb st formal f ((CHR ''-'' # (name @ CHR ''='' # v)) # rest) =
      (case splitEquals (name @ CHR ''='' # v) of (n, hasValue, value) \<Rightarrow>
         applyFlag isb st formal f n hasValue value rest)"
    using assms by (intro parseOne_single_dash) (simp_all add: hd_append)
  then show ?thesis
    by (simp add: splitEquals_value [OF assms(1) assms(4)])
qed

lemma applyFlag_bool:
  "map_of formal name = Some (newBoolPtrValue p) \<Longrightarrow>
     applyFlag IsBoolFlag (Set pd) formal f name False [] rest =
       Seen (p (\<lambda>_. Some True) f) rest"
  by (simp add: applyFlag_def ParseBool_def)

lemma applyFlag_bool_value:
  "map_of formal name = Some (newBoolPtrValue p) \<Longrightarrow>
     applyFlag IsBoolFlag (Set pd) formal f name True v rest =
       (case ParseBool v of Inl e \<Rightarrow> Failed (ErrInvalidBoolValue v name e)
        | Inr b \<Rightarrow> Seen (p (\<lambda>_. Some b) f) rest)"
  by (simp add: applyFlag_def split: sum.splits)

lemma applyFlag_undefined:
  "map_of formal name = None \<Longrightarrow>
     applyFlag isb st formal f name hasValue v rest =
       Failed (if name = ''help'' \<or> name = ''h'' then ErrHelp else ErrNotDefined name)"
  by (simp add: applyFlag_def)

lemma applyFlag_value_next:
  "map_of formal name = Some flag \<Longrightarrow> \<not> isb flag \<Longrightarrow>
     applyFlag isb st formal f name False [] (x # rest) =
       (case st flag x f of Inl e \<Rightarrow> Failed (ErrInvalidValue x name e)
        | Inr f' \<Rightarrow> Seen f' rest)"
  by (simp add: applyFlag_def)

lemma applyFlag_value_equals:
  "map_of formal name = Some flag \<Longrightarrow> \<not> isb flag \<Longrightarrow>
     applyFlag isb st formal f name True x rest =
       (case st flag x f of Inl e \<Rightarrow> Failed (ErrInvalidValue x name e)
        | Inr f' \<Rightarrow> Seen f' rest)"
  by (simp add: applyFlag_def)

lemma applyFlag_needs_argument:
  "map_of formal name = Some flag \<Longrightarrow> \<not> isb flag \<Longrightarrow>
     applyFlag isb st formal f name False [] [] = Failed (ErrNeedsArgument name)"
  by (simp add: applyFlag_def)

text \<open>
  A flag that is accepted when it stands alone as the last argument does not read the
  argument behind it. This holds for the library's parser with any flag values: if
  \<^verbatim>\<open>-name\<close> alone parses, the flag is a boolean flag (any other flag needs an argument),
  and then \<^verbatim>\<open>-name\<close> followed by a positional argument gives the same flags and leaves
  the positional argument unread.
\<close>

lemma Parse_flag_alone_ignores_next:
  assumes name: "name \<noteq> []" "hd name \<noteq> CHR ''-''" "hd name \<noteq> CHR ''=''" "CHR ''='' \<notin> set name"
    and alone: "Parse isb st formal f [CHR ''-'' # name] = Inr (f', r)"
    and t: "length t < 2 \<or> hd t \<noteq> CHR ''-''"
  shows "Parse isb st formal f ((CHR ''-'' # name) # t # rest) = Inr (f', t # rest)"
proof -
  have one: "parseOne isb st formal f ((CHR ''-'' # name) # xs) =
      applyFlag isb st formal f name False [] xs" for xs
    by (rule parseOne_name [OF name])
  from alone obtain flag where flag: "map_of formal name = Some flag"
    by (cases "map_of formal name")
      (auto simp: Parse_Failed one applyFlag_undefined)
  have b: "isb flag"
  proof (rule ccontr)
    assume "\<not> isb flag"
    with flag have "parseOne isb st formal f [CHR ''-'' # name] = Failed (ErrNeedsArgument name)"
      by (simp add: one applyFlag_needs_argument)
    with alone show False
      by (simp add: Parse_Failed)
  qed
  from alone flag b obtain f1 where f1: "st flag ''true'' f = Inr f1"
    by (cases "st flag ''true'' f")
      (auto simp: Parse_Failed one applyFlag_def)
  with flag b have seen: "parseOne isb st formal f ((CHR ''-'' # name) # xs) = Seen f1 xs" for xs
    by (simp add: one applyFlag_def)
  from alone have "f' = f1"
    by (simp add: Parse_Seen [OF seen] Parse_Nil)
  moreover have "Parse isb st formal f1 (t # rest) = Inr (f1, t # rest)"
    by (rule Parse_NotSeen) (rule parseOne_positional [OF t])
  ultimately show ?thesis
    by (simp add: Parse_Seen [OF seen])
qed

subsection \<open>Failures of ParseFlags\<close>

lemma ParseFlags_error_zero:
  "snd (ParseFlags pd args) \<noteq> None \<Longrightarrow> fst (ParseFlags pd args) = Flags_zero"
  by (simp add: ParseFlags_def split: sum.splits prod.splits)

lemma not_IsBoolFlag [simp]:
  "\<not> IsBoolFlag (newIntPtrValue p)" "\<not> IsBoolFlag (newDurationPtrValue p)"
  "\<not> IsBoolFlag (newStringMapValue q)" "\<not> IsBoolFlag (newStringPtrValue r)"
  "\<not> IsBoolFlag (newStringSliceValue t)"
  by simp_all

text \<open>
  C3 (as stated). A trailing positional argument is no error: \<^verbatim>\<open>extra\<close> alone parses
  to the zero \<^verbatim>\<open>Flags\<close> without error, and \<^verbatim>\<open>-bind a extra\<close> parses, the flags before the
  positional argument are returned and \<^verbatim>\<open>extra\<close> is left unread.
\<close>

theorem ParseFlags_trailing_argument_counterexample:
  "ParseFlags parseDuration_ex [''extra''] = (Flags_zero, None) \<and>
   ParseFlags parseDuration_ex [''-bind'', ''a'', ''extra''] =
     (Flags_zero\<lparr>File := ConfigFile_zero\<lparr>BindAddr := Some ''a''\<rparr>\<rparr>, None) \<and>
   remainingArgs parseDuration_ex [''-bind'', ''a'', ''extra''] = Some [''extra'']"
  by (simp add: ParseFlags_def remainingArgs_def Parse.simps parseOne_def applyFlag_def
      AddFlags_def splitEquals_def Flags_zero_def)

text \<open>
  C3 (amended). Let \<^verbatim>\<open>Parse\<close> have read the arguments \<open>pre\<close> as flags. If the next
  argument is a flag that is not defined, or a defined int, duration or map flag whose
  value (the next argument, or the text after the equals sign) does not parse, then
  \<^verbatim>\<open>ParseFlags\<close> fails with an error that names the flag and the value; every failure of
  \<^verbatim>\<open>ParseFlags\<close> returns the zero \<^verbatim>\<open>Flags\<close>. If the next argument is positional (shorter
  than two characters or not starting with a dash), \<^verbatim>\<open>ParseFlags\<close> does not fail: it
  returns the flags read so far and ignores the positional argument and all behind it.
\<close>

theorem ParseFlags_failures:
  assumes "consumed pd Flags_zero pre = Some f"
  shows
    "(snd (ParseFlags pd args) \<noteq> None \<longrightarrow> fst (ParseFlags pd args) = Flags_zero) \<and>
     (map_of AddFlags name = None \<and> name \<noteq> [] \<and> hd name \<noteq> CHR ''-'' \<and> hd name \<noteq> CHR ''='' \<and>
        CHR ''='' \<notin> set name \<longrightarrow>
        ParseFlags pd (pre @ (CHR ''-'' # name) # rest) =
          (Flags_zero,
           Some (if name = ''help'' \<or> name = ''h'' then ErrHelp else ErrNotDefined name))) \<and>
     (map_of AddFlags iname = Some (newIntPtrValue ip) \<and> Atoi v = Inl e \<longrightarrow>
        ParseFlags pd (pre @ (CHR ''-'' # iname) # v # rest) =
          (Flags_zero, Some (ErrInvalidValue v iname e)) \<and>
        ParseFlags pd (pre @ (CHR ''-'' # iname @ CHR ''='' # v) # rest) =
          (Flags_zero, Some (ErrInvalidValue v iname e))) \<and>
     (map_of AddFlags dname = Some (newDurationPtrValue dp) \<and> pd v = Inl e \<longrightarrow>
        ParseFlags pd (pre @ (CHR ''-'' # dname) # v # rest) =
          (Flags_zero, Some (ErrInvalidValue v dname e)) \<and>
        ParseFlags pd (pre @ (CHR ''-'' # dname @ CHR ''='' # v) # rest) =
          (Flags_zero, Some (ErrInvalidValue v dname e))) \<and>
     (map_of AddFlags mname = Some (newStringMapValue mp) \<and> CHR '':'' \<notin> set v \<longrightarrow>
        ParseFlags pd (pre @ (CHR ''-'' # mname) # v # rest) =
          (Flags_zero, Some (ErrInvalidValue v mname (ErrMissingColon v))) \<and>
        ParseFlags pd (pre @ (CHR ''-'' # mname @ CHR ''='' # v) # rest) =
          (Flags_zero, Some (ErrInvalidValue v mname (ErrMissingColon v)))) \<and>
     (length s < 2 \<or> hd s \<noteq> CHR ''-'' \<longrightarrow> ParseFlags pd (pre @ s # rest) = (f, None))"
proof (intro conjI impI)
  show "fst (ParseFlags pd args) = Flags_zero" if "snd (ParseFlags pd args) \<noteq> None"
    using that by (rule ParseFlags_error_zero)
next
  assume a: "map_of AddFlags name = None \<and> name \<noteq> [] \<and> hd name \<noteq> CHR ''-'' \<and>
    hd name \<noteq> CHR ''='' \<and> CHR ''='' \<notin> set name"
  then have "parseOne IsBoolFlag (Set pd) AddFlags f ((CHR ''-'' # name) # rest) =
      Failed (if name = ''help'' \<or> name = ''h'' then ErrHelp else ErrNotDefined name)"
    by (simp add: parseOne_name applyFlag_undefined)
  with assms show "ParseFlags pd (pre @ (CHR ''-'' # name) # rest) =
      (Flags_zero, Some (if name = ''help'' \<or> name = ''h'' then ErrHelp else ErrNotDefined name))"
    by (rule ParseFlags_consumed_Failed)
next
  assume a: "map_of AddFlags iname = Some (newIntPtrValue ip) \<and> Atoi v = Inl e"
  note n = AddFlags_name [OF a [THEN conjunct1]]
  from a have "parseOne IsBoolFlag (Set pd) AddFlags f ((CHR ''-'' # iname) # v # rest) =
      Failed (ErrInvalidValue v iname e)"
    by (simp add: parseOne_name [OF n] applyFlag_value_next)
  with assms show "ParseFlags pd (pre @ (CHR ''-'' # iname) # v # rest) =
      (Flags_zero, Some (ErrInvalidValue v iname e))"
    by (rule ParseFlags_consumed_Failed)
  from a have "parseOne IsBoolFlag (Set pd) AddFlags f ((CHR ''-'' # iname @ CHR ''='' # v) # rest) =
      Failed (ErrInvalidValue v iname e)"
    by (simp add: parseOne_name_value [OF n] applyFlag_value_equals)
  with assms show "ParseFlags pd (pre @ (CHR ''-'' # iname @ CHR ''='' # v) # rest) =
      (Flags_zero, Some (ErrInvalidValue v iname e))"
    by (rule ParseFlags_consumed_Failed)
next
  assume a: "map_of AddFlags dname = Some (newDurationPtrValue dp) \<and> pd v = Inl e"
  note n = AddFlags_name [OF a [THEN conjunct1]]
  from a have "parseOne IsBoolFlag (Set pd) AddFlags f ((CHR ''-'' # dname) # v # rest) =
      Failed (ErrInvalidValue v dname e)"
    by (simp add: parseOne_name [OF n] applyFlag_value_next)
  with assms show "ParseFlags pd (pre @ (CHR ''-'' # dname) # v # rest) =
      (Flags_zero, Some (ErrInvalidValue v dname e))"
    by (rule ParseFlags_consumed_Failed)
  from a have "parseOne IsBoolFlag (Set pd) AddFlags f ((CHR ''-'' # dname @ CHR ''='' # v) # rest) =
      Failed (ErrInvalidValue v dname e)"
    by (simp add: parseOne_name_value [OF n] applyFlag_value_equals)
  with assms show "ParseFlags pd (pre @ (CHR ''-'' # dname @ CHR ''='' # v) # rest) =
      (Flags_zero, Some (ErrInvalidValue v dname e))"
    by (rule ParseFlags_consumed_Failed)
next
  assume a: "map_of AddFlags mname = Some (newStringMapValue mp) \<and> CHR '':'' \<notin> set v"
  note n = AddFlags_name [OF a [THEN conjunct1]]
  from a have "parseOne IsBoolFlag (Set pd) AddFlags f ((CHR ''-'' # mname) # v # rest) =
      Failed (ErrInvalidValue v mname (ErrMissingColon v))"
    by (simp add: parseOne_name [OF n] applyFlag_value_next splitColon_None)
  with assms show "ParseFlags pd (pre @ (CHR ''-'' # mname) # v # rest) =
      (Flags_zero, Some (ErrInvalidValue v mname (ErrMissingColon v)))"
    by (rule ParseFlags_consumed_Failed)
  from a have "parseOne IsBoolFlag (Set pd) AddFlags f ((CHR ''-'' # mname @ CHR ''='' # v) # rest) =
      Failed (ErrInvalidValue v mname (ErrMissingColon v))"
    by (simp add: parseOne_name_value [OF n] applyFlag_value_equals splitColon_None)
  with assms show "ParseFlags pd (pre @ (CHR ''-'' # mname @ CHR ''='' # v) # rest) =
      (Flags_zero, Some (ErrInvalidValue v mname (ErrMissingColon v)))"
    by (rule ParseFlags_consumed_Failed)
next
  assume "length s < 2 \<or> hd s \<noteq> CHR ''-''"
  then have "parseOne IsBoolFlag (Set pd) AddFlags f (s # rest) = NotSeen (s # rest)"
    by (rule parseOne_positional)
  with assms show "ParseFlags pd (pre @ s # rest) = (f, None)"
    by (rule ParseFlags_consumed_NotSeen)
qed

theorem ParseFlags_failures_witness:
  "consumed parseDuration_ex Flags_zero [''-bind'', ''a''] =
     Some (Flags_zero\<lparr>File := ConfigFile_zero\<lparr>BindAddr := Some ''a''\<rparr>\<rparr>) \<and>
   ParseFlags parseDuration_ex ([''-bind'', ''a''] @ [''-foo'', ''1'']) =
     (Flags_zero, Some (ErrNotDefined ''foo'')) \<and>
   ParseFlags parseDuration_ex ([''-bind'', ''a''] @ [''-dns-port'', ''12x'']) =
     (Flags_zero, Some (ErrInvalidValue ''12x'' ''dns-port'' (ErrAtoi ''12x''))) \<and>
   ParseFlags parseDuration_ex ([''-bind'', ''a''] @ [''-retry-interval=x'']) =
     (Flags_zero, Some (ErrInvalidValue ''x'' ''retry-interval'' (ErrParseDuration ''x''))) \<and>
   ParseFlags parseDuration_ex ([''-bind'', ''a''] @ [''-node-meta'', ''ab'']) =
     (Flags_zero, Some (ErrInvalidValue ''ab'' ''node-meta'' (ErrMissingColon ''ab''))) \<and>
   ParseFlags parseDuration_ex ([''-bind'', ''a''] @ [''extra'', ''-foo'']) =
     (Flags_zero\<lparr>File := ConfigFile_zero\<lparr>BindAddr := Some ''a''\<rparr>\<rparr>, None)"
proof -
  let ?f = "Flags_zero\<lparr>File := ConfigFile_zero\<lparr>BindAddr := Some ''a''\<rparr>\<rparr>"
  have c: "consumed parseDuration_ex Flags_zero [''-bind'', ''a''] = Some ?f"
    by (simp add: consumed.simps parseOne_def applyFlag_def AddFlags_def splitEquals_def
        Flags_zero_def)
  have u: "map_of AddFlags ''foo'' = None"
    by (simp add: AddFlags_def)
  have i: "map_of AddFlags ''dns-port'' =
      Some (newIntPtrValue (\<lambda>g. File_update (Ports_update (DNS_update g))))"
    by (simp add: AddFlags_def)
  have d: "map_of AddFlags ''retry-interval'' =
      Some (newDurationPtrValue (\<lambda>g. File_update (RetryJoinIntervalLAN_update g)))"
    by (simp add: AddFlags_def)
  have m: "map_of AddFlags ''node-meta'' =
      Some (newStringMapValue (\<lambda>g. File_update (NodeMeta_update g)))"
    by (simp add: AddFlags_def)
  have a: "Atoi ''12x'' = Inl (ErrAtoi ''12x'')"
    by (simp add: Atoi_def digitVal_def)
  have p: "parseDuration_ex ''x'' = Inl (ErrParseDuration ''x'')"
    by (simp add: parseDuration_ex_def)
  have 1: "ParseFlags parseDuration_ex ([''-bind'', ''a''] @ [''-foo'', ''1'']) =
      (Flags_zero, Some (ErrNotDefined ''foo''))"
    using ParseFlags_failures [OF c, of _ "''foo''" "[''1'']"] u by simp
  have 2: "ParseFlags parseDuration_ex ([''-bind'', ''a''] @ [''-dns-port'', ''12x'']) =
      (Flags_zero, Some (ErrInvalidValue ''12x'' ''dns-port'' (ErrAtoi ''12x'')))"
    using ParseFlags_failures [OF c, of _ _ "[]" "''dns-port''" _ "''12x''" "ErrAtoi ''12x''"] i a
    by simp
  have 3: "ParseFlags parseDuration_ex ([''-bind'', ''a''] @ [''-retry-interval=x'']) =
      (Flags_zero, Some (ErrInvalidValue ''x'' ''retry-interval'' (ErrParseDuration ''x'')))"
    using ParseFlags_failures [OF c, of _ _ "[]" _ _ "''x''" "ErrParseDuration ''x''"
        "''retry-interval''"] d p
    by simp
  have 4: "ParseFlags parseDuration_ex ([''-bind'', ''a''] @ [''-node-meta'', ''ab'']) =
      (Flags_zero, Some (ErrInvalidValue ''ab'' ''node-meta'' (ErrMissingColon ''ab'')))"
    using ParseFlags_failures [OF c, of _ _ "[]" _ _ "''ab''" _ _ _ "''node-meta''"] m
    by simp
  have 5: "ParseFlags parseDuration_ex ([''-bind'', ''a''] @ [''extra'', ''-foo'']) = (?f, None)"
    using ParseFlags_failures [OF c, of _ _ "[''-foo'']" _ _ _ _ _ _ _ _ "''extra''"]
    by simp
  from c 1 2 3 4 5 show ?thesis
    by (simp only: simp_thms)
qed

subsection \<open>Map flags\<close>

text \<open>
  C7. Within one call of \<^verbatim>\<open>ParseFlags\<close> the occurrences of \<^verbatim>\<open>-node-meta\<close> accumulate by
  key. After \<^verbatim>\<open>Parse\<close> has read the arguments \<open>pre\<close> as flags, a further \<^verbatim>\<open>-node-meta\<close>
  whose argument has a colon is split at the first colon into key and value, and the
  pair is inserted into the map built so far in this call, overwriting the key if it is
  there; an argument without a colon makes \<^verbatim>\<open>ParseFlags\<close> fail. The arguments
  \<^verbatim>\<open>-node-meta a:b -node-meta c:d\<close> give the map {a: b, c: d}.
\<close>

theorem ParseFlags_node_meta_accumulates:
  assumes "consumed pd Flags_zero pre = Some f"
  shows
    "(CHR '':'' \<notin> set k \<longrightarrow>
        ParseFlags pd (pre @ [''-node-meta'', k @ CHR '':'' # v]) =
          (f\<lparr>File := (File f)\<lparr>NodeMeta := (NodeMeta (File f))(k \<mapsto> v)\<rparr>\<rparr>, None) \<and>
        consumed pd Flags_zero (pre @ [''-node-meta'', k @ CHR '':'' # v]) =
          Some (f\<lparr>File := (File f)\<lparr>NodeMeta := (NodeMeta (File f))(k \<mapsto> v)\<rparr>\<rparr>)) \<and>
     (CHR '':'' \<notin> set s \<longrightarrow>
        ParseFlags pd (pre @ ''-node-meta'' # s # rest) =
          (Flags_zero, Some (ErrInvalidValue s ''node-meta'' (ErrMissingColon s)))) \<and>
     ParseFlags pd [''-node-meta'', ''a:b'', ''-node-meta'', ''c:d''] =
       (Flags_zero\<lparr>File := ConfigFile_zero\<lparr>NodeMeta := [''a'' \<mapsto> ''b'', ''c'' \<mapsto> ''d'']\<rparr>\<rparr>, None)"
proof (intro conjI impI)
  have m: "map_of AddFlags ''node-meta'' =
      Some (newStringMapValue (\<lambda>g. File_update (NodeMeta_update g)))"
    by (simp add: AddFlags_def)
  have one: "parseOne IsBoolFlag (Set pd) AddFlags f (''-node-meta'' # x # rest) =
      (case splitColon x of
         None \<Rightarrow> Failed (ErrInvalidValue x ''node-meta'' (ErrMissingColon x))
       | Some (k, v) \<Rightarrow> Seen (f\<lparr>File := (File f)\<lparr>NodeMeta := (NodeMeta (File f))(k \<mapsto> v)\<rparr>\<rparr>) rest)"
    for x rest
    using parseOne_name [of "''node-meta''" IsBoolFlag "Set pd" AddFlags f "x # rest"]
    by (simp add: applyFlag_value_next [OF m] split: option.splits)
  {
    assume k: "CHR '':'' \<notin> set k"
    let ?f' = "f\<lparr>File := (File f)\<lparr>NodeMeta := (NodeMeta (File f))(k \<mapsto> v)\<rparr>\<rparr>"
    from k have "parseOne IsBoolFlag (Set pd) AddFlags f [''-node-meta'', k @ CHR '':'' # v] = Seen ?f' []"
      by (simp add: one splitColon_Some)
    then have "consumed pd f [''-node-meta'', k @ CHR '':'' # v] = Some ?f'"
      by (simp add: consumed_Seen consumed_Nil)
    with assms show c: "consumed pd Flags_zero (pre @ [''-node-meta'', k @ CHR '':'' # v]) = Some ?f'"
      by (simp add: consumed_append)
    then show "ParseFlags pd (pre @ [''-node-meta'', k @ CHR '':'' # v]) = (?f', None)"
      by (rule ParseFlags_consumed_all)
  }
  {
    assume "CHR '':'' \<notin> set s"
    then have "parseOne IsBoolFlag (Set pd) AddFlags f (''-node-meta'' # s # rest) =
        Failed (ErrInvalidValue s ''node-meta'' (ErrMissingColon s))"
      by (simp add: one splitColon_None)
    with assms show "ParseFlags pd (pre @ ''-node-meta'' # s # rest) =
        (Flags_zero, Some (ErrInvalidValue s ''node-meta'' (ErrMissingColon s)))"
      by (rule ParseFlags_consumed_Failed)
  }
  show "ParseFlags pd [''-node-meta'', ''a:b'', ''-node-meta'', ''c:d''] =
      (Flags_zero\<lparr>File := ConfigFile_zero\<lparr>NodeMeta := [''a'' \<mapsto> ''b'', ''c'' \<mapsto> ''d'']\<rparr>\<rparr>, None)"
    by (simp add: ParseFlags_def Parse.simps parseOne_def applyFlag_def AddFlags_def
        splitEquals_def Flags_zero_def ConfigFile_zero_def)
qed

theorem ParseFlags_node_meta_accumulates_witness:
  "consumed parseDuration_ex Flags_zero [''-node-meta'', ''a:b''] =
     Some (Flags_zero\<lparr>File := ConfigFile_zero\<lparr>NodeMeta := [''a'' \<mapsto> ''b'']\<rparr>\<rparr>) \<and>
   ParseFlags parseDuration_ex ([''-node-meta'', ''a:b''] @ [''-node-meta'', ''c:d:e'']) =
     (Flags_zero\<lparr>File := ConfigFile_zero\<lparr>NodeMeta := [''a'' \<mapsto> ''b'', ''c'' \<mapsto> ''d:e'']\<rparr>\<rparr>, None) \<and>
   ParseFlags parseDuration_ex ([''-node-meta'', ''a:b''] @ [''-node-meta'', ''a:z'']) =
     (Flags_zero\<lparr>File := ConfigFile_zero\<lparr>NodeMeta := [''a'' \<mapsto> ''z'']\<rparr>\<rparr>, None) \<and>
   ParseFlags parseDuration_ex ([''-node-meta'', ''a:b''] @ [''-node-meta'', ''cd'']) =
     (Flags_zero, Some (ErrInvalidValue ''cd'' ''node-meta'' (ErrMissingColon ''cd'')))"
proof -
  let ?f = "Flags_zero\<lparr>File := ConfigFile_zero\<lparr>NodeMeta := [''a'' \<mapsto> ''b'']\<rparr>\<rparr>"
  have c: "consumed parseDuration_ex Flags_zero [''-node-meta'', ''a:b''] = Some ?f"
    by (simp add: consumed.simps parseOne_def applyFlag_def AddFlags_def splitEquals_def
        Flags_zero_def ConfigFile_zero_def)
  have 1: "ParseFlags parseDuration_ex ([''-node-meta'', ''a:b''] @ [''-node-meta'', ''c:d:e'']) =
      (Flags_zero\<lparr>File := ConfigFile_zero\<lparr>NodeMeta := [''a'' \<mapsto> ''b'', ''c'' \<mapsto> ''d:e'']\<rparr>\<rparr>, None)"
    using ParseFlags_node_meta_accumulates [OF c, of "''c''" "''d:e''"]
    by (simp add: Flags_zero_def ConfigFile_zero_def)
  have 2: "ParseFlags parseDuration_ex ([''-node-meta'', ''a:b''] @ [''-node-meta'', ''a:z'']) =
      (Flags_zero\<lparr>File := ConfigFile_zero\<lparr>NodeMeta := [''a'' \<mapsto> ''z'']\<rparr>\<rparr>, None)"
    using ParseFlags_node_meta_accumulates [OF c, of "''a''" "''z''"]
    by (simp add: Flags_zero_def ConfigFile_zero_def)
  have 3: "ParseFlags parseDuration_ex ([''-node-meta'', ''a:b''] @ [''-node-meta'', ''cd'']) =
      (Flags_zero, Some (ErrInvalidValue ''cd'' ''node-meta'' (ErrMissingColon ''cd'')))"
    using ParseFlags_node_meta_accumulates [OF c, of _ _ "''cd''" "[]"]
    by simp
  from c 1 2 3 show ?thesis
    by (simp only: simp_thms)
qed

subsection \<open>Boolean flags\<close>

text \<open>
  C8 (as stated). \<^verbatim>\<open>-bootstrap false\<close> gives \<^verbatim>\<open>Bootstrap\<close> present and true, not false:
  the token \<^verbatim>\<open>false\<close> is not taken as the value of the flag, it is left unread.
\<close>

theorem ParseFlags_bootstrap_false_counterexample:
  "ParseFlags parseDuration_ex [''-bootstrap'', ''false''] =
     (Flags_zero\<lparr>File := ConfigFile_zero\<lparr>Bootstrap := Some True\<rparr>\<rparr>, None) \<and>
   remainingArgs parseDuration_ex [''-bootstrap'', ''false''] = Some [''false'']"
  by (simp add: ParseFlags_def remainingArgs_def Parse.simps parseOne_def applyFlag_def
      AddFlags_def splitEquals_def ParseBool_def Flags_zero_def)

text \<open>
  C8 (amended). \<^verbatim>\<open>-bootstrap\<close>, \<^verbatim>\<open>-bootstrap=true\<close> and \<^verbatim>\<open>-bootstrap true\<close> give
  \<^verbatim>\<open>Bootstrap\<close> present and true; \<^verbatim>\<open>-bootstrap=false\<close> gives present and false;
  \<^verbatim>\<open>-bootstrap false\<close> gives present and true. A boolean flag without an equals sign
  takes the value true and never reads the following token, whatever it is: all
  arguments behind the flag are left for the next step of the parser. With an equals
  sign the text behind it is the value, and it must be a boolean literal.
\<close>

theorem ParseFlags_bootstrap_forms:
  "ParseFlags pd [''-bootstrap''] =
     (Flags_zero\<lparr>File := ConfigFile_zero\<lparr>Bootstrap := Some True\<rparr>\<rparr>, None) \<and>
   ParseFlags pd [''-bootstrap=true''] =
     (Flags_zero\<lparr>File := ConfigFile_zero\<lparr>Bootstrap := Some True\<rparr>\<rparr>, None) \<and>
   ParseFlags pd [''-bootstrap'', ''true''] =
     (Flags_zero\<lparr>File := ConfigFile_zero\<lparr>Bootstrap := Some True\<rparr>\<rparr>, None) \<and>
   ParseFlags pd [''-bootstrap=false''] =
     (Flags_zero\<lparr>File := ConfigFile_zero\<lparr>Bootstrap := Some False\<rparr>\<rparr>, None) \<and>
   ParseFlags pd [''-bootstrap'', ''false''] =
     (Flags_zero\<lparr>File := ConfigFile_zero\<lparr>Bootstrap := Some True\<rparr>\<rparr>, None) \<and>
   parseOne IsBoolFlag (Set pd) AddFlags f (''-bootstrap'' # rest) =
     Seen (f\<lparr>File := (File f)\<lparr>Bootstrap := Some True\<rparr>\<rparr>) rest \<and>
   (map_of AddFlags name = Some (newBoolPtrValue p) \<longrightarrow>
      parseOne IsBoolFlag (Set pd) AddFlags f ((CHR ''-'' # name) # rest) = Seen (p (\<lambda>_. Some True) f) rest \<and>
      parseOne IsBoolFlag (Set pd) AddFlags f ((CHR ''-'' # name @ CHR ''='' # v) # rest) =
        (case ParseBool v of
           Inl e \<Rightarrow> Failed (ErrInvalidBoolValue v name e)
         | Inr b \<Rightarrow> Seen (p (\<lambda>_. Some b) f) rest))"
proof -
  have ev: "ParseFlags pd [''-bootstrap''] =
        (Flags_zero\<lparr>File := ConfigFile_zero\<lparr>Bootstrap := Some True\<rparr>\<rparr>, None)"
      "ParseFlags pd [''-bootstrap=true''] =
        (Flags_zero\<lparr>File := ConfigFile_zero\<lparr>Bootstrap := Some True\<rparr>\<rparr>, None)"
      "ParseFlags pd [''-bootstrap'', ''true''] =
        (Flags_zero\<lparr>File := ConfigFile_zero\<lparr>Bootstrap := Some True\<rparr>\<rparr>, None)"
      "ParseFlags pd [''-bootstrap=false''] =
        (Flags_zero\<lparr>File := ConfigFile_zero\<lparr>Bootstrap := Some False\<rparr>\<rparr>, None)"
      "ParseFlags pd [''-bootstrap'', ''false''] =
        (Flags_zero\<lparr>File := ConfigFile_zero\<lparr>Bootstrap := Some True\<rparr>\<rparr>, None)"
    by (simp_all add: ParseFlags_def Parse.simps parseOne_def applyFlag_def AddFlags_def
        splitEquals_def ParseBool_def Flags_zero_def)
  have b: "map_of AddFlags ''bootstrap'' =
      Some (newBoolPtrValue (\<lambda>g. File_update (Bootstrap_update g)))"
    by (simp add: AddFlags_def)
  have one: "parseOne IsBoolFlag (Set pd) AddFlags f (''-bootstrap'' # rest) =
      Seen (f\<lparr>File := (File f)\<lparr>Bootstrap := Some True\<rparr>\<rparr>) rest"
    using parseOne_name [of "''bootstrap''" IsBoolFlag "Set pd" AddFlags f rest]
    by (simp add: applyFlag_bool [OF b])
  have gen: "parseOne IsBoolFlag (Set pd) AddFlags f ((CHR ''-'' # name) # rest) = Seen (p (\<lambda>_. Some True) f) rest \<and>
      parseOne IsBoolFlag (Set pd) AddFlags f ((CHR ''-'' # name @ CHR ''='' # v) # rest) =
        (case ParseBool v of
           Inl e \<Rightarrow> Failed (ErrInvalidBoolValue v name e)
         | Inr b \<Rightarrow> Seen (p (\<lambda>_. Some b) f) rest)"
    if m: "map_of AddFlags name = Some (newBoolPtrValue p)"
    by (simp add: parseOne_name [OF AddFlags_name [OF m]]
        parseOne_name_value [OF AddFlags_name [OF m]] applyFlag_bool [OF m]
        applyFlag_bool_value [OF m])
  from ev one gen show ?thesis
    by blast
qed

theorem ParseFlags_bootstrap_forms_witness:
  "map_of AddFlags ''dev'' = Some (newBoolPtrValue (\<lambda>g. File_update (DevMode_update g))) \<and>
   parseOne IsBoolFlag (Set parseDuration_ex) AddFlags Flags_zero [''-dev'', ''false''] =
     Seen (Flags_zero\<lparr>File := ConfigFile_zero\<lparr>DevMode := Some True\<rparr>\<rparr>) [''false''] \<and>
   parseOne IsBoolFlag (Set parseDuration_ex) AddFlags Flags_zero [''-dev=false'', ''x''] =
     Seen (Flags_zero\<lparr>File := ConfigFile_zero\<lparr>DevMode := Some False\<rparr>\<rparr>) [''x'']"
proof -
  have m: "map_of AddFlags ''dev'' = Some (newBoolPtrValue (\<lambda>g. File_update (DevMode_update g)))"
    by (simp add: AddFlags_def)
  have 1: "parseOne IsBoolFlag (Set parseDuration_ex) AddFlags Flags_zero [''-dev'', ''false''] =
      Seen (Flags_zero\<lparr>File := ConfigFile_zero\<lparr>DevMode := Some True\<rparr>\<rparr>) [''false'']"
    using ParseFlags_bootstrap_forms [of parseDuration_ex Flags_zero "[''false'']" "''dev''"
        "\<lambda>g. File_update (DevMode_update g)" "''false''"] m
    by (simp add: Flags_zero_def)
  have 2: "parseOne IsBoolFlag (Set parseDuration_ex) AddFlags Flags_zero [''-dev=false'', ''x''] =
      Seen (Flags_zero\<lparr>File := ConfigFile_zero\<lparr>DevMode := Some False\<rparr>\<rparr>) [''x'']"
    using ParseFlags_bootstrap_forms [of parseDuration_ex Flags_zero "[''x'']" "''dev''"
        "\<lambda>g. File_update (DevMode_update g)" "''false''"] m
    by (simp add: Flags_zero_def ParseBool_def)
  from m 1 2 show ?thesis
    by (simp only: simp_thms)
qed

subsection \<open>The tests of the repository\<close>

text \<open>The model gives what \<^verbatim>\<open>TestParseFlags\<close> expects, test by test.\<close>

lemma ParseFlags_TestParseFlags:
  "ParseFlags pd [] = (Flags_zero, None)"
  "ParseFlags pd [''-bind'', ''a''] =
     (Flags_zero\<lparr>File := ConfigFile_zero\<lparr>BindAddr := Some ''a''\<rparr>\<rparr>, None)"
  "ParseFlags pd [''-bootstrap''] =
     (Flags_zero\<lparr>File := ConfigFile_zero\<lparr>Bootstrap := Some True\<rparr>\<rparr>, None)"
  "ParseFlags pd [''-bootstrap=true''] =
     (Flags_zero\<lparr>File := ConfigFile_zero\<lparr>Bootstrap := Some True\<rparr>\<rparr>, None)"
  "ParseFlags pd [''-bootstrap=false''] =
     (Flags_zero\<lparr>File := ConfigFile_zero\<lparr>Bootstrap := Some False\<rparr>\<rparr>, None)"
  "ParseFlags pd [''-bootstrap'', ''true''] =
     (Flags_zero\<lparr>File := ConfigFile_zero\<lparr>Bootstrap := Some True\<rparr>\<rparr>, None)"
  "ParseFlags pd [''-config-file'', ''a'', ''-config-dir'', ''b'', ''-config-file'', ''c'',
       ''-config-dir'', ''d''] =
     (Flags_zero\<lparr>ConfigFiles := [''a'', ''b'', ''c'', ''d'']\<rparr>, None)"
  "ParseFlags pd [''-datacenter'', ''a''] =
     (Flags_zero\<lparr>File := ConfigFile_zero\<lparr>Datacenter := Some ''a''\<rparr>\<rparr>, None)"
  "ParseFlags pd [''-dns-port'', ''1''] =
     (Flags_zero\<lparr>File := ConfigFile_zero\<lparr>Ports := Ports_zero\<lparr>DNS := Some 1\<rparr>\<rparr>\<rparr>, None)"
  "ParseFlags pd [''-join'', ''a'', ''-join'', ''b''] =
     (Flags_zero\<lparr>File := ConfigFile_zero\<lparr>JoinAddrsLAN := [''a'', ''b'']\<rparr>\<rparr>, None)"
  "ParseFlags pd [''-node-meta'', ''a:b'', ''-node-meta'', ''c:d''] =
     (Flags_zero\<lparr>File := ConfigFile_zero\<lparr>NodeMeta := [''a'' \<mapsto> ''b'', ''c'' \<mapsto> ''d'']\<rparr>\<rparr>, None)"
  by (simp_all add: ParseFlags_def Parse.simps parseOne_def applyFlag_def AddFlags_def
      splitEquals_def ParseBool_def Atoi_def digitVal_def Flags_zero_def ConfigFile_zero_def
      Ports_zero_def)

text \<open>
  The cases of \<^verbatim>\<open>TestConfig\<close> that use flags only: the flags are parsed, merged over the
  empty default fragment and resolved.
\<close>

lemma NewConfig_TestConfig_flags:
  "NewConfig pd (Merge [ConfigFile_zero, File (fst (ParseFlags pd [''-bind'', ''1.2.3.4'']))]) =
     (Config_zero\<lparr>BindAddrs := [''1.2.3.4'']\<rparr>, None)"
  "NewConfig pd (Merge [ConfigFile_zero, File (fst (ParseFlags pd [''-bootstrap'']))]) =
     (Config_zero\<lparr>Config_Bootstrap := True\<rparr>, None)"
  "NewConfig pd (Merge [ConfigFile_zero, File (fst (ParseFlags pd [''-datacenter'', ''a'']))]) =
     (Config_zero\<lparr>Config_Datacenter := ''a''\<rparr>, None)"
  "NewConfig pd (Merge [ConfigFile_zero,
       File (fst (ParseFlags pd [''-dns-port'', ''123'', ''-bind'', ''0.0.0.0'']))]) =
     (Config_zero\<lparr>BindAddrs := [''0.0.0.0''], DNSPort := 123, DNSAddrsUDP := ['':123''],
        DNSAddrsTCP := ['':123'']\<rparr>, None)"
  "NewConfig pd (Merge [ConfigFile_zero, File (fst (ParseFlags pd [''-join'', ''a'', ''-join'', ''b'']))]) =
     (Config_zero\<lparr>Config_JoinAddrsLAN := [''a'', ''b'']\<rparr>, None)"
  "NewConfig pd (Merge [ConfigFile_zero,
       File (fst (ParseFlags pd [''-node-meta'', ''a:b'', ''-node-meta'', ''c:d'']))]) =
     (Config_zero\<lparr>Config_NodeMeta := [''a'' \<mapsto> ''b'', ''c'' \<mapsto> ''d'']\<rparr>, None)"
  by (simp_all add: ParseFlags_def Parse.simps parseOne_def applyFlag_def AddFlags_def
      splitEquals_def ParseBool_def Atoi_def digitVal_def Flags_zero_def ConfigFile_zero_def
      Ports_zero_def RetryJoinAzure_zero_def RetryJoinEC2_zero_def RetryJoinGCE_zero_def
      Merge_def mergeConfigFile_def mergeScalar_def mergeList_def mergeMap_def mergePorts_def
      mergeRetryJoinAzure_def mergeRetryJoinEC2_def mergeRetryJoinGCE_def
      NewConfig_def Config_zero_def boolVal_def durationVal_def stringVal_def intVal_def
      addrVal_def appendDNSAddrs_def joinHostPort_def JoinHostPort_def Itoa_def
      natDigits.simps Let_def)


end
